theory Spec2Isabelle
  imports Complex_Main
begin

section \<open>Python values, errors and the global state\<close>

text \<open>
  The module \<^verbatim>\<open>adversarial/models.py\<close> builds Keras computation graphs. The embedding
  below is symbolic: a layer is a value recording the class and the constructor arguments
  the source gives it, a tensor is the call of a layer on a list of tensors, and a model
  is the value \<^verbatim>\<open>Model(inputs=..., outputs=..., name=...)\<close> records. Every Python-level
  failure of the source (indexing an empty list, multiplying \<^verbatim>\<open>None\<close>, a keyword
  passed twice) is a branch of the embedding. Keras and Python arithmetic are not part of
  the source. Where the outcome of a function depends on them, they are parameters of
  the embedding, read as what the library really does: the check Keras makes of the
  arguments of a hidden \<open>Dense\<close> layer (\<open>Dense_init\<close>), the input shape Keras has
  recorded for a layer that is not an input layer (\<open>node_shape\<close>), and the product of
  two Python numbers (\<open>number_mul\<close>). Every statement below holds for all of them.
\<close>

datatype pyval = PyNone | PyBool bool | PyInt int | PyFloat real | PyStr string

text \<open>Truth value of a configuration value, as \<^verbatim>\<open>if x:\<close> reads it.\<close>

fun truthy :: "pyval \<Rightarrow> bool" where
  "truthy PyNone = False"
| "truthy (PyBool b) = b"
| "truthy (PyInt i) = (i \<noteq> 0)"
| "truthy (PyFloat r) = (r \<noteq> 0)"
| "truthy (PyStr s) = (s \<noteq> [])"

datatype error = TypeError | IndexError | AttributeError | ValueError

type_synonym pydict = "string \<rightharpoonup> pyval"

text \<open>\<^verbatim>\<open>opts.pop(key, dflt)\<close>: the value stored under the key, or the fallback, and the
  dictionary without the key.\<close>

definition pop :: "string \<Rightarrow> pyval \<Rightarrow> pydict \<Rightarrow> pyval \<times> pydict" where
  "pop key dflt opts = ((case opts key of None \<Rightarrow> dflt | Some v \<Rightarrow> v), opts(key := None))"

text \<open>
  Three pieces of global state are threaded through every function: the counters behind
  \<^verbatim>\<open>K.get_uid\<close> (one per prefix), the module's generator
  \<^verbatim>\<open>RNG = np.random.RandomState(21)\<close>, held as the sequence of values its coming
  \<^verbatim>\<open>randint\<close> calls return, and the number of input layers created so far, which
  gives every new input layer its identity. A function returns its result together with
  the new state, or the error it raises; the state a failed call leaves behind is not
  kept, since nothing below depends on it.
\<close>

record kstate =
  uids :: "string \<Rightarrow> nat"
  RNG :: "nat \<Rightarrow> int"
  objects :: nat

definition get_uid :: "string \<Rightarrow> kstate \<Rightarrow> nat \<times> kstate" where
  "get_uid prefix st =
     (Suc (uids st prefix), st\<lparr>uids := (uids st)(prefix := Suc (uids st prefix))\<rparr>)"

definition randint :: "kstate \<Rightarrow> int \<times> kstate" where
  "randint st = (RNG st 0, st\<lparr>RNG := (\<lambda>n. RNG st (Suc n))\<rparr>)"

subsection \<open>Strings\<close>

definition digit :: "nat \<Rightarrow> char" where
  "digit n = ''0123456789'' ! n"

function format_nat :: "nat \<Rightarrow> string" where
  "format_nat n = (if n < 10 then [digit n] else format_nat (n div 10) @ [digit (n mod 10)])"
  by pat_completeness auto
termination
  by (relation "measure (\<lambda>n. n)") auto

declare format_nat.simps [simp del]

text \<open>\<^verbatim>\<open>'{}'.format(i)\<close> for an integer.\<close>

definition format_int :: "int \<Rightarrow> string" where
  "format_int i = (if i < 0 then ''-'' @ format_nat (nat (- i)) else format_nat (nat i))"

text \<open>\<^verbatim>\<open>s.endswith(suffix)\<close> and \<^verbatim>\<open>s.replace('/', '_')\<close>.\<close>

definition endswith :: "string \<Rightarrow> string \<Rightarrow> bool" where
  "endswith s suffix =
     (length suffix \<le> length s \<and> drop (length s - length suffix) s = suffix)"

definition replace_slash :: "string \<Rightarrow> string" where
  "replace_slash s = map (\<lambda>c. if c = CHR ''/'' then CHR ''_'' else c) s"

text \<open>\<^verbatim>\<open>xs[0]\<close> raises \<^verbatim>\<open>IndexError\<close> on an empty list.\<close>

definition item0 :: "'a list \<Rightarrow> error + 'a" where
  "item0 xs = (case xs of [] \<Rightarrow> Inl IndexError | x # rest \<Rightarrow> Inr x)"

text \<open>\<^verbatim>\<open>lambda_reg * lr_ratio\<close> for two optional numbers: \<^verbatim>\<open>None\<close> on either side is
  a \<^verbatim>\<open>TypeError\<close>. The product of two numbers is the one Python computes, for floats
  the rounded product and not the product of the reals; it is the parameter
  \<open>number_mul\<close>.\<close>

definition py_mul ::
  "(real \<Rightarrow> real \<Rightarrow> real) \<Rightarrow> real option \<Rightarrow> real option \<Rightarrow> error + real" where
  "py_mul number_mul a b =
     (case a of None \<Rightarrow> Inl TypeError
      | Some x \<Rightarrow> (case b of None \<Rightarrow> Inl TypeError | Some y \<Rightarrow> Inr (number_mul x y)))"

section \<open>Layers, tensors and models\<close>

text \<open>
  One constructor per layer class the module uses, holding the constructor arguments in
  the order the source passes them. \<open>Dense\<close> holds its name, its activity and kernel
  regularizers, and the remaining keyword arguments (\<^verbatim>\<open>**opts\<close>; a positional
  \<^verbatim>\<open>units\<close> is the entry \<open>''units''\<close>). \<open>Dropout\<close> holds the rate, the seed and the name.
  \<open>PosteriorLayer\<close>, \<open>GradientReversalLayer\<close> and \<open>DecorrelationLayer\<close> are the classes
  of \<^verbatim>\<open>adversarial/layers.py\<close>; only their constructor arguments are recorded, and
  \<open>DecorrelationLayer\<close>, constructed without arguments, is taken to be named as Keras
  names any layer. A model called on tensors is a layer as well (\<open>ModelLayer\<close>).
  Two input layers can agree in shape and name and still be two objects
  (\<^verbatim>\<open>combined_model\<close> copies both from an input layer that exists), so an input layer
  also holds its identity, the serial number of its creation.
\<close>

datatype regularizer = regularizers_l1 pyval | regularizers_l2 pyval

datatype layer =
    InputLayer "int option list" string nat
  | BatchNormalization string
  | Dense string "regularizer option" "regularizer option" pydict
  | Dropout pyval int string
  | Lambda "real \<Rightarrow> real" string
  | Concatenate string
  | PosteriorLayer pyval int string
  | GradientReversalLayer real string
  | DecorrelationLayer string
  | ModelLayer model
and tensor = Call layer "tensor list"
and model =
    Model (inputs: "tensor list") (outputs: "tensor list") (model_name: string)
      (trainable: bool) (layers: "layer list")

text \<open>The attribute \<^verbatim>\<open>l.name\<close> of a layer.\<close>

fun name :: "layer \<Rightarrow> string" where
  "name (InputLayer batch_input_shape n ident) = n"
| "name (BatchNormalization n) = n"
| "name (Dense n activity_regularizer kernel_regularizer opts) = n"
| "name (Dropout rate seed n) = n"
| "name (Lambda f n) = n"
| "name (Concatenate n) = n"
| "name (PosteriorLayer gmm_components gmm_dimensions n) = n"
| "name (GradientReversalLayer hp_lambda n) = n"
| "name (DecorrelationLayer n) = n"
| "name (ModelLayer m) = model_name m"

text \<open>\<^verbatim>\<open>type(l) == InputLayer\<close>.\<close>

fun is_InputLayer :: "layer \<Rightarrow> bool" where
  "is_InputLayer (InputLayer batch_input_shape n ident) = True"
| "is_InputLayer l = False"

text \<open>
  The attribute \<^verbatim>\<open>l.input_shape\<close>. An input layer stores it (the batch dimension
  \<open>None\<close> first). For every other layer Keras reads it from the nodes of the calls of
  the layer, which a layer value does not record: there it is what the parameter
  \<open>node_shape\<close> gives, a shape, or the error Keras raises for a layer without one. The
  first layer of a \<^verbatim>\<open>Sequential\<close> model, for one, is its first \<open>Dense\<close> layer.
\<close>

fun input_shape ::
  "(layer \<Rightarrow> error + int option list) \<Rightarrow> layer \<Rightarrow> error + int option list" where
  "input_shape node_shape (InputLayer batch_input_shape n ident) = Inr batch_input_shape"
| "input_shape node_shape l = node_shape l"

text \<open>The identity of an input layer.\<close>

fun ident :: "layer \<Rightarrow> nat option" where
  "ident (InputLayer batch_input_shape n i) = Some i"
| "ident l = None"

text \<open>Assigning \<^verbatim>\<open>m.trainable = b\<close>.\<close>

definition set_trainable :: "bool \<Rightarrow> model \<Rightarrow> model" where
  "set_trainable b m = Model (inputs m) (outputs m) (model_name m) b (layers m)"

subsection \<open>Keras constructors\<close>

text \<open>
  The name Keras gives an object constructed without one. A layer gets its class name in
  snake case, an underscore and the next uid of the class name, the counter the naming
  helper of this module draws from as well; an input layer counts under \<open>input\<close> and a
  model under \<open>model\<close>.
\<close>

definition auto_name :: "string \<Rightarrow> string \<Rightarrow> kstate \<Rightarrow> string \<times> kstate" where
  "auto_name prefix stem st =
     (let (u, st) = get_uid prefix st in (stem @ ''_'' @ format_nat u, st))"

text \<open>\<^verbatim>\<open>Input(shape=..., name=...)\<close>: a new input layer whose stored shape is the given one
  after the batch dimension, and its output tensor. An absent or empty name is replaced
  by an automatic one. The layer is a new object: it takes the next serial number.\<close>

definition Input :: "int option list \<Rightarrow> string option \<Rightarrow> kstate \<Rightarrow> tensor \<times> kstate" where
  "Input shape nm st =
     (let (n, st) = (case nm of
                       None \<Rightarrow> auto_name ''input'' ''input'' st
                     | Some n \<Rightarrow> if n = [] then auto_name ''input'' ''input'' st else (n, st))
      in (Call (InputLayer (None # shape) n (objects st)) [], st\<lparr>objects := Suc (objects st)\<rparr>))"

text \<open>
  \<^verbatim>\<open>Dense(name=..., activity_regularizer=..., kernel_regularizer=..., **opts)\<close>. Python
  itself refuses the call with a \<^verbatim>\<open>TypeError\<close> when \<^verbatim>\<open>opts\<close> repeats one of the
  three keywords written out. Otherwise the arguments reach Keras, which accepts them or
  raises an error of its own (for a keyword it does not know, for a layer without a
  width): \<open>Dense_init\<close> gives that error, or \<open>None\<close> when Keras builds the layer.
\<close>

type_synonym dense_init = "regularizer option \<Rightarrow> regularizer option \<Rightarrow> pydict \<Rightarrow> error option"

definition repeats_keyword :: "pydict \<Rightarrow> bool" where
  "repeats_keyword opts =
     (\<not> (opts ''name'' = None \<and> opts ''activity_regularizer'' = None
         \<and> opts ''kernel_regularizer'' = None))"

definition new_Dense ::
  "dense_init \<Rightarrow> string \<Rightarrow> regularizer option \<Rightarrow> regularizer option \<Rightarrow> pydict
     \<Rightarrow> error + layer" where
  "new_Dense Dense_init n activity_regularizer kernel_regularizer opts =
     (if repeats_keyword opts then Inl TypeError
      else (case Dense_init activity_regularizer kernel_regularizer opts of
              Some e \<Rightarrow> Inl e
            | None \<Rightarrow> Inr (Dense n activity_regularizer kernel_regularizer opts)))"

text \<open>
  The attribute \<^verbatim>\<open>layers\<close> of a new model: every layer reachable from the outputs, once,
  by decreasing depth (the longest path to an output), layers of equal depth in the
  order a depth-first walk from the outputs first meets them. A nested model counts as
  one layer.
\<close>

fun occs :: "nat \<Rightarrow> tensor \<Rightarrow> (layer \<times> nat) list" where
  "occs d (Call l ins) = (l, d) # concat (map (occs (Suc d)) ins)"

definition container_layers :: "tensor list \<Rightarrow> layer list" where
  "container_layers outs =
     (let os = concat (map (occs 0) outs);
          ls = rev (remdups (rev (map fst os)));
          depth = (\<lambda>l. fold max (map snd (filter (\<lambda>p. fst p = l) os)) 0)
      in sort_key (\<lambda>l. - int (depth l)) ls)"

text \<open>\<^verbatim>\<open>Model(inputs=..., outputs=..., name=...)\<close>; a new model is trainable.\<close>

definition new_Model ::
  "tensor list \<Rightarrow> tensor list \<Rightarrow> string option \<Rightarrow> kstate \<Rightarrow> model \<times> kstate" where
  "new_Model ins outs nm st =
     (let (n, st) = (case nm of
                       None \<Rightarrow> auto_name ''model'' ''model'' st
                     | Some n \<Rightarrow> if n = [] then auto_name ''model'' ''model'' st else (n, st))
      in (Model ins outs n True (container_layers outs), st))"

section \<open>The module\<close>

subsection \<open>Naming layers\<close>

definition layer_name_factory :: "string option \<Rightarrow> string \<Rightarrow> string" where
  "layer_name_factory scope n =
     (case scope of
        None \<Rightarrow> n
      | Some s \<Rightarrow> if s \<noteq> [] then s @ ''/'' @ n else n)"

text \<open>
  \<^verbatim>\<open>snake_case\<close> is a function of \<^verbatim>\<open>adversarial/utils.py\<close>; it is a parameter here. A
  factory call only builds a closure: the closure is the partial application, and where
  the source builds one that it never calls, the definitions below leave it out.
\<close>

definition keras_layer_name_factory ::
  "(string \<Rightarrow> string) \<Rightarrow> string option \<Rightarrow> string \<Rightarrow> kstate \<Rightarrow> string \<times> kstate" where
  "keras_layer_name_factory snake_case scope cls st =
     (let layer_name = layer_name_factory scope;
          (u, st) = get_uid cls st
      in (layer_name (snake_case cls @ ''_'' @ format_nat u), st))"

subsection \<open>\<^verbatim>\<open>stack_layers\<close>\<close>

text \<open>The loop over \<^verbatim>\<open>architecture\<close> is the recursion; \<open>l\<close> is the last layer so far.\<close>

fun stack_layers ::
  "(string \<Rightarrow> string) \<Rightarrow> dense_init \<Rightarrow> tensor \<Rightarrow> pydict list \<Rightarrow> pydict \<Rightarrow> string option
     \<Rightarrow> kstate \<Rightarrow> error + tensor \<times> kstate" where
  "stack_layers snake_case Dense_init l [] defaults scope st = Inr (l, st)"
| "stack_layers snake_case Dense_init l (spec # architecture) defaults scope st =
     (let keras_layer_name = keras_layer_name_factory snake_case scope;
          opts = defaults ++ spec;
          (batchnorm, opts) = pop ''batchnorm'' (PyBool False) opts;
          (dropout, opts) = pop ''dropout'' PyNone opts;
          (l1reg, opts) = pop ''l1reg'' PyNone opts;
          (l2reg, opts) = pop ''l2reg'' PyNone opts;
          (l, st) = (if truthy batchnorm
                     then (let (n, st) = keras_layer_name ''BatchNormalization'' st
                           in (Call (BatchNormalization n) [l], st))
                     else (l, st));
          (n, st) = keras_layer_name ''Dense'' st
      in case new_Dense Dense_init n
                (if truthy l1reg then Some (regularizers_l1 l1reg) else None)
                (if truthy l2reg then Some (regularizers_l2 l2reg) else None)
                opts of
           Inl e \<Rightarrow> Inl e
         | Inr dense \<Rightarrow>
             (let l = Call dense [l];
                  (l, st) = (if truthy dropout
                             then (let (seed, st) = randint st;
                                       (n, st) = keras_layer_name ''Dropout'' st
                                   in (Call (Dropout dropout seed n) [l], st))
                             else (l, st))
              in stack_layers snake_case Dense_init l architecture defaults scope st))"

subsection \<open>\<^verbatim>\<open>classifier_model\<close>\<close>

definition classifier_model ::
  "(string \<Rightarrow> string) \<Rightarrow> dense_init \<Rightarrow> int \<Rightarrow> pydict list \<Rightarrow> pydict \<Rightarrow> string option
     \<Rightarrow> kstate \<Rightarrow> error + model \<times> kstate" where
  "classifier_model snake_case Dense_init num_params architecture defaults scope st =
     (let layer_name = layer_name_factory scope;
          (classifier_input, st) = Input [Some num_params] (Some (layer_name ''input'')) st
      in case stack_layers snake_case Dense_init classifier_input architecture defaults scope
                st of
           Inl e \<Rightarrow> Inl e
         | Inr (classifier_stack, st) \<Rightarrow>
             (let classifier_output =
                    Call (Dense (layer_name ''output'') None None
                            [''units'' \<mapsto> PyInt 1, ''activation'' \<mapsto> PyStr ''sigmoid''])
                      [classifier_stack]
              in Inr (new_Model [classifier_input] [classifier_output] scope st)))"

subsection \<open>\<^verbatim>\<open>adversary_model\<close>\<close>

text \<open>
  \<^verbatim>\<open>gmm_dimensions\<close> is counted over (\<^verbatim>\<open>xrange(1, gmm_dimensions + 1)\<close>), so it is an
  integer; \<^verbatim>\<open>gmm_components\<close>, whose default is \<^verbatim>\<open>None\<close>, is only handed to the
  constructors, so it is any Python value. Each \<^verbatim>\<open>for\<close> statement is a map over
  \<open>[1..gmm_dimensions]\<close>.
\<close>

definition adversary_model ::
  "(string \<Rightarrow> string) \<Rightarrow> dense_init \<Rightarrow> int \<Rightarrow> pyval \<Rightarrow> pydict list \<Rightarrow> pydict \<Rightarrow> string option
     \<Rightarrow> kstate \<Rightarrow> error + model \<times> kstate" where
  "adversary_model snake_case Dense_init gmm_dimensions gmm_components architecture defaults
     scope st =
     (let layer_name = layer_name_factory scope;
          (adversary_input_clf, st) = Input [Some 1] (Some (layer_name ''input_clf'')) st;
          (adversary_input_pt, st) = Input [Some 1] (Some (layer_name ''input_pt'')) st;
          (adversary_input_par, st) =
             Input [Some gmm_dimensions] (Some (layer_name ''input_par'')) st;
          clf = adversary_input_clf;
          (n, st) = auto_name ''Lambda'' ''lambda'' st;
          pt = Call (Lambda (\<lambda>pt. (pt - ln 200) / (ln 2000 - ln 200)) n) [adversary_input_pt];
          inputs = Call (Concatenate (layer_name ''concatenate'')) [clf, pt]
      in case stack_layers snake_case Dense_init inputs architecture defaults scope st of
           Inl e \<Rightarrow> Inl e
         | Inr (features, st) \<Rightarrow>
             (let r_coeffs =
                    Call (Dense (layer_name ''coeffs'') None None
                            [''units'' \<mapsto> gmm_components, ''activation'' \<mapsto> PyStr ''softmax''])
                      [features];
                  r_means =
                    map (\<lambda>i. Call (Dense (layer_name (''means_'' @ format_int i)) None None
                                     [''units'' \<mapsto> gmm_components,
                                      ''activation'' \<mapsto> PyStr ''sigmoid''])
                               [features])
                      [1..gmm_dimensions];
                  r_widths =
                    map (\<lambda>i. Call (Dense (layer_name (''widths_'' @ format_int i)) None None
                                     [''units'' \<mapsto> gmm_components,
                                      ''activation'' \<mapsto> PyStr ''softplus''])
                               [features])
                      [1..gmm_dimensions];
                  adversary_output =
                    Call (PosteriorLayer gmm_components gmm_dimensions (layer_name ''output''))
                      ([r_coeffs] @ r_means @ r_widths @ [adversary_input_par])
              in Inr (new_Model [adversary_input_clf, adversary_input_pt, adversary_input_par]
                        [adversary_output] scope st)))"

subsection \<open>\<^verbatim>\<open>combined_model\<close>\<close>

text \<open>
  \<^verbatim>\<open>lambda_reg\<close> and \<^verbatim>\<open>lr_ratio\<close> are numbers, or the default \<^verbatim>\<open>None\<close>. Each
  \<^verbatim>\<open>case\<close> is a statement that can raise, in the order the source evaluates them.
  The input layers found in the adversary are input layers, so their input shape is the
  one they store. The function returns a new model and assigns to no attribute of its
  arguments, which are not returned here.
\<close>

definition combined_model ::
  "(string \<Rightarrow> string) \<Rightarrow> (layer \<Rightarrow> error + int option list) \<Rightarrow> (real \<Rightarrow> real \<Rightarrow> real)
     \<Rightarrow> model \<Rightarrow> model \<Rightarrow> real option \<Rightarrow> real option \<Rightarrow> string option \<Rightarrow> kstate
     \<Rightarrow> error + model \<times> kstate" where
  "combined_model snake_case node_shape number_mul classifier adversary lambda_reg lr_ratio
     scope st =
     (let keras_layer_name = keras_layer_name_factory snake_case scope;
          layer_name = layer_name_factory scope
      in
      (case item0 (layers classifier) of Inl e \<Rightarrow> Inl e | Inr classifier_input \<Rightarrow>
      (case input_shape node_shape classifier_input of Inl e \<Rightarrow> Inl e | Inr shape_clf \<Rightarrow>
      (let (combined_input_clf, st) =
              Input (tl shape_clf)
                (Some (layer_name (replace_slash (name classifier_input)))) st;
           combined_output_clf = Call (ModelLayer classifier) [combined_input_clf]
       in
      (case py_mul number_mul lambda_reg lr_ratio of Inl e \<Rightarrow> Inl e | Inr hp_lambda \<Rightarrow>
      (let (n, st) = keras_layer_name ''GradientReversalLayer'' st;
           gradient_reversal = Call (GradientReversalLayer hp_lambda n) [combined_output_clf];
           input_layers = filter is_InputLayer (layers adversary)
       in
      (case item0 (filter (\<lambda>l. endswith (name l) ''_pt'') input_layers) of
         Inl e \<Rightarrow> Inl e | Inr adversary_input_pt \<Rightarrow>
      (case item0 (filter (\<lambda>l. endswith (name l) ''_par'') input_layers) of
         Inl e \<Rightarrow> Inl e | Inr adversary_input_par \<Rightarrow>
      (case input_shape node_shape adversary_input_pt of Inl e \<Rightarrow> Inl e | Inr shape_pt \<Rightarrow>
      (let (input_pt, st) =
              Input (tl shape_pt)
                (Some (layer_name (replace_slash (name adversary_input_pt)))) st
       in
      (case input_shape node_shape adversary_input_par of Inl e \<Rightarrow> Inl e | Inr shape_par \<Rightarrow>
      (let (input_par, st) =
              Input (tl shape_par)
                (Some (layer_name (replace_slash (name adversary_input_par)))) st;
           inputs_adv = [input_pt, input_par];
           outputs_adv = [Call (ModelLayer adversary) ([gradient_reversal] @ inputs_adv)]
       in Inr (new_Model ([combined_input_clf] @ inputs_adv)
                 ([combined_output_clf] @ outputs_adv) scope st)))))))))))))"

subsection \<open>\<^verbatim>\<open>decorrelation_model\<close>\<close>

text \<open>
  The function changes its argument, so the argument is an object here: the attributes
  of the model, and the list Keras keeps of the nodes of the calls of the model on
  tensors, a node being the list of tensors of one call. Calling a model on tensors
  (\<^verbatim>\<open>classifier(classifier_input)\<close>) returns the output tensor and appends a node to
  that list. Keras also keeps, for every model, the list of the calls of other layers on
  its output tensors, the outbound nodes, held here as the tensors these calls return:
  the \<open>DecorrelationLayer\<close> applied to the classifier's output adds one.
\<close>

record object =
  attributes :: model
  inbound_nodes :: "tensor list list"
  outbound_nodes :: "tensor list"

definition call_model :: "object \<Rightarrow> tensor list \<Rightarrow> tensor \<times> object" where
  "call_model m xs =
     (Call (ModelLayer (attributes m)) xs, m\<lparr>inbound_nodes := inbound_nodes m @ [xs]\<rparr>)"

text \<open>
  The function returns the classifier as the call leaves it beside its result, also when
  it raises. The keyword arguments \<^verbatim>\<open>**kwargs\<close> are accepted and never read.
\<close>

definition decorrelation_model ::
  "(layer \<Rightarrow> error + int option list) \<Rightarrow> object \<Rightarrow> int \<Rightarrow> string option \<Rightarrow> pydict \<Rightarrow> kstate
     \<Rightarrow> object \<times> (error + model \<times> kstate)" where
  "decorrelation_model node_shape classifier num_decorrelation_features scope kwargs st =
     (let classifier = classifier\<lparr>attributes := set_trainable True (attributes classifier)\<rparr>;
          (decorrelation_input, st) = Input [Some num_decorrelation_features] None st;
          (decorrelation_weights, st) = Input [Some 1] None st
      in
      (case item0 (layers (attributes classifier)) of
         Inl e \<Rightarrow> (classifier, Inl e) | Inr first_layer \<Rightarrow>
      (case input_shape node_shape first_layer of
         Inl e \<Rightarrow> (classifier, Inl e) | Inr shape_clf \<Rightarrow>
      (let (classifier_input, st) = Input (tl shape_clf) None st;
           (classifier_output, classifier) = call_model classifier [classifier_input];
           (n, st) = auto_name ''DecorrelationLayer'' ''decorrelation_layer'' st;
           decorrelation_output =
             Call (DecorrelationLayer n)
               [classifier_output, decorrelation_input, decorrelation_weights];
           classifier =
             classifier\<lparr>outbound_nodes := outbound_nodes classifier @ [decorrelation_output]\<rparr>
       in (classifier,
           Inr (new_Model [classifier_input, decorrelation_input, decorrelation_weights]
                  [classifier_output, decorrelation_output] scope st))))))"

section \<open>Reading a graph\<close>

text \<open>The layers under a tensor along first arguments, the deepest first; for a stack
  of single-input layers this is the stack from the bottom up.\<close>

fun chain :: "tensor \<Rightarrow> layer list" where
  "chain (Call l []) = [l]"
| "chain (Call l (t # ts)) = chain t @ [l]"

text \<open>The keyword arguments (\<^verbatim>\<open>**opts\<close>) of the \<open>Dense\<close> layers of a list, in order.\<close>

fun Dense_opts :: "layer list \<Rightarrow> pydict list" where
  "Dense_opts [] = []"
| "Dense_opts (Dense n activity_regularizer kernel_regularizer opts # ls) = opts # Dense_opts ls"
| "Dense_opts (l # ls) = Dense_opts ls"

text \<open>
  The dictionary a \<open>Dense\<close> layer of the stack is expected to receive: the defaults
  overridden by the entry, without the four keys the loop takes out. It is written from
  the description of \<^verbatim>\<open>stack_layers\<close>, to be compared with what the function passes.
\<close>

definition overridden_opts :: "pydict \<Rightarrow> pydict \<Rightarrow> pydict" where
  "overridden_opts defaults spec =
     (\<lambda>key. if key \<in> {''batchnorm'', ''dropout'', ''l1reg'', ''l2reg''} then None
            else case spec key of None \<Rightarrow> defaults key | Some v \<Rightarrow> Some v)"

text \<open>\<^verbatim>\<open>opts.get(key, dflt)\<close>, the setting an entry has for a key.\<close>

definition setting :: "pydict \<Rightarrow> string \<Rightarrow> pyval \<Rightarrow> pyval" where
  "setting opts key dflt = (case opts key of None \<Rightarrow> dflt | Some v \<Rightarrow> v)"

text \<open>
  The layers an entry is expected to add, with names and seeds left blank: a
  \<open>BatchNormalization\<close> layer when the setting \<open>batchnorm\<close> holds, the \<open>Dense\<close> layer, with
  an L1 activity regularizer of strength \<open>l1reg\<close> and an L2 kernel regularizer of strength
  \<open>l2reg\<close> when these settings hold, and a \<open>Dropout\<close> layer of rate \<open>dropout\<close> when that
  setting holds. It is written from the description of \<^verbatim>\<open>stack_layers\<close> as well.
\<close>

definition expected_layers :: "pydict \<Rightarrow> pydict \<Rightarrow> layer list" where
  "expected_layers defaults spec =
     (let opts = defaults ++ spec;
          batchnorm = setting opts ''batchnorm'' (PyBool False);
          dropout = setting opts ''dropout'' PyNone;
          l1reg = setting opts ''l1reg'' PyNone;
          l2reg = setting opts ''l2reg'' PyNone
      in (if truthy batchnorm then [BatchNormalization []] else []) @
         [Dense [] (if truthy l1reg then Some (regularizers_l1 l1reg) else None)
            (if truthy l2reg then Some (regularizers_l2 l2reg) else None)
            (overridden_opts defaults spec)] @
         (if truthy dropout then [Dropout dropout 0 []] else []))"

text \<open>A layer of the stack with its name and its seed blanked.\<close>

fun unnamed :: "layer \<Rightarrow> layer" where
  "unnamed (BatchNormalization n) = BatchNormalization []"
| "unnamed (Dense n activity_regularizer kernel_regularizer opts) =
     Dense [] activity_regularizer kernel_regularizer opts"
| "unnamed (Dropout rate seed n) = Dropout rate 0 []"
| "unnamed l = l"

text \<open>
  The \<open>Dense\<close> layer of an entry can be constructed: its keyword arguments repeat none of
  the three keywords the call writes out, and Keras accepts the arguments.
\<close>

definition Dense_constructible :: "dense_init \<Rightarrow> pydict \<Rightarrow> pydict \<Rightarrow> bool" where
  "Dense_constructible Dense_init defaults spec =
     (let opts = defaults ++ spec;
          l1reg = setting opts ''l1reg'' PyNone;
          l2reg = setting opts ''l2reg'' PyNone
      in \<not> repeats_keyword (overridden_opts defaults spec) \<and>
         Dense_init (if truthy l1reg then Some (regularizers_l1 l1reg) else None)
           (if truthy l2reg then Some (regularizers_l2 l2reg) else None)
           (overridden_opts defaults spec) = None)"

section \<open>Concrete inputs\<close>

text \<open>
  The inputs of the worked examples below: a stand-in for \<^verbatim>\<open>snake_case\<close> (lower case,
  an underscore before every capital but the first); stand-ins for the three parameters
  that speak for Keras and Python (a check of a \<open>Dense\<close> layer that asks for a width, an
  input shape of width 3 recorded for every \<open>Dense\<close> layer and for no other layer, and
  the product of the reals, which is the product of the floats on the numbers used); a
  state with every counter at zero; and the classifier and the adversary the module
  builds from it, one after the other.
\<close>

definition lower :: "char \<Rightarrow> char" where
  "lower c =
     (case map_of (zip ''ABCDEFGHIJKLMNOPQRSTUVWXYZ'' ''abcdefghijklmnopqrstuvwxyz'') c of
        None \<Rightarrow> c
      | Some d \<Rightarrow> d)"

fun underscored :: "string \<Rightarrow> string" where
  "underscored [] = []"
| "underscored (c # cs) =
     (if lower c = c then c # underscored cs else CHR ''_'' # lower c # underscored cs)"

definition example_snake_case :: "string \<Rightarrow> string" where
  "example_snake_case s = (case s of [] \<Rightarrow> [] | c # cs \<Rightarrow> lower c # underscored cs)"

definition example_Dense_init :: dense_init where
  "example_Dense_init activity_regularizer kernel_regularizer opts =
     (if opts ''units'' = None then Some TypeError else None)"

definition example_node_shape :: "layer \<Rightarrow> error + int option list" where
  "example_node_shape l =
     (case l of
        Dense n activity_regularizer kernel_regularizer opts \<Rightarrow> Inr [None, Some 3]
      | _ \<Rightarrow> Inl AttributeError)"

definition example_number_mul :: "real \<Rightarrow> real \<Rightarrow> real" where
  "example_number_mul x y = x * y"

definition example_state :: kstate where
  "example_state = \<lparr>uids = (\<lambda>prefix. 0), RNG = (\<lambda>n. 21 + int n), objects = 0\<rparr>"

definition example_classifier :: model where
  "example_classifier =
     fst (projr (classifier_model example_snake_case example_Dense_init 3 [] Map.empty
                   (Some ''classifier'') example_state))"

definition example_adversary :: model where
  "example_adversary =
     fst (projr (adversary_model example_snake_case example_Dense_init 2 (PyInt 3) []
                   Map.empty (Some ''adversary'')
                   (example_state\<lparr>objects := 1\<rparr>)))"

text \<open>The state after both are built: four input layers exist, one \<open>Lambda\<close> layer has
  been named.\<close>

definition example_built :: kstate where
  "example_built = \<lparr>uids = (\<lambda>prefix. if prefix = ''Lambda'' then 1 else 0),
                      RNG = (\<lambda>n. 21 + int n), objects = 4\<rparr>"


definition example_empty :: model where
  "example_empty = Model [] [] ''sequential_1'' True []"

text \<open>The example classifier as an object, with the node Keras makes when a model is
  built.\<close>

definition example_classifier_object :: object where
  "example_classifier_object =
     \<lparr>attributes = example_classifier, inbound_nodes = [inputs example_classifier], outbound_nodes = []\<rparr>"


definition example_architecture :: "pydict list" where
  "example_architecture =
     [[''units'' \<mapsto> PyInt 4, ''batchnorm'' \<mapsto> PyBool True, ''dropout'' \<mapsto> PyFloat 0.5,
       ''l1reg'' \<mapsto> PyInt 0],
      [''units'' \<mapsto> PyInt 2, ''activation'' \<mapsto> PyStr ''tanh'', ''l2reg'' \<mapsto> PyFloat 0.01]]"

definition example_default :: pydict where
  "example_default = [''activation'' \<mapsto> PyStr ''relu'', ''dropout'' \<mapsto> PyNone]"

section \<open>Properties\<close>

subsection \<open>Constructors\<close>

lemma auto_name_objects: "objects (snd (auto_name prefix stem st)) = objects st"
  by (simp add: auto_name_def get_uid_def)

lemma Input_layer:
  "\<exists>n st'. Input shape nm st = (Call (InputLayer (None # shape) n (objects st)) [], st') \<and>
           objects st' = Suc (objects st)"
  using auto_name_objects [of "''input''" "''input''" st]
  by (auto simp: Input_def Let_def split: prod.split option.split)

lemma layer_name_nonempty: "n \<noteq> [] \<Longrightarrow> layer_name_factory scope n \<noteq> []"
  by (simp add: layer_name_factory_def split: option.split)

lemma Input_named:
  "n \<noteq> [] \<Longrightarrow> Input shape (Some (layer_name_factory scope n)) st
     = (Call (InputLayer (None # shape) (layer_name_factory scope n) (objects st)) [],
        st\<lparr>objects := Suc (objects st)\<rparr>)"
  by (simp add: Input_def layer_name_nonempty)

lemma new_Model_fields:
  "inputs (fst (new_Model ins outs nm st)) = ins"
  "outputs (fst (new_Model ins outs nm st)) = outs"
  "trainable (fst (new_Model ins outs nm st)) = True"
  by (simp_all add: new_Model_def Let_def split: prod.split)

lemma new_Model_eq:
  "new_Model ins outs nm st = (m, st') \<Longrightarrow> inputs m = ins \<and> outputs m = outs \<and> trainable m = True"
  using new_Model_fields [of ins outs nm st] by simp


subsection \<open>The stack of hidden layers\<close>

lemma Dense_opts_append: "Dense_opts (xs @ ys) = Dense_opts xs @ Dense_opts ys"
  by (induction xs rule: Dense_opts.induct) simp_all

lemma Dense_opts_unnamed: "Dense_opts (map unnamed xs) = Dense_opts xs"
  by (induction xs rule: Dense_opts.induct) simp_all

lemma Dense_opts_expected:
  "Dense_opts (expected_layers defaults spec) = [overridden_opts defaults spec]"
  by (simp add: expected_layers_def Let_def Dense_opts_append)

lemma Dense_opts_expected_all:
  "Dense_opts (concat (map (expected_layers defaults) architecture))
     = map (overridden_opts defaults) architecture"
  by (induction architecture) (simp_all add: Dense_opts_append Dense_opts_expected)

lemma pops:
  "snd (pop ''l2reg'' d4 (snd (pop ''l1reg'' d3 (snd (pop ''dropout'' d2
     (snd (pop ''batchnorm'' d1 (defaults ++ spec)))))))) =
   (overridden_opts defaults spec)"
  by (rule ext) (simp add: pop_def map_add_def overridden_opts_def split: option.split)

lemma pops_fst:
  "fst (pop ''batchnorm'' d1 opts) = setting opts ''batchnorm'' d1"
  "fst (pop ''dropout'' d2 (snd (pop ''batchnorm'' d1 opts))) = setting opts ''dropout'' d2"
  "fst (pop ''l1reg'' d3 (snd (pop ''dropout'' d2 (snd (pop ''batchnorm'' d1 opts)))))
     = setting opts ''l1reg'' d3"
  "fst (pop ''l2reg'' d4 (snd (pop ''l1reg'' d3 (snd (pop ''dropout'' d2
     (snd (pop ''batchnorm'' d1 opts))))))) = setting opts ''l2reg'' d4"
  by (simp_all add: pop_def setting_def)

lemma stack_layers_step:
  assumes "stack_layers snake_case Dense_init l (spec # architecture) defaults scope st = Inr r"
  shows "\<exists>l1 st1 new.
           stack_layers snake_case Dense_init l1 architecture defaults scope st1 = Inr r \<and>
           chain l1 = chain l @ new \<and>
           map unnamed new = expected_layers defaults spec \<and>
           Dense_constructible Dense_init defaults spec"
proof -
  define batchnorm where "batchnorm = setting (defaults ++ spec) ''batchnorm'' (PyBool False)"
  define dropout where "dropout = setting (defaults ++ spec) ''dropout'' PyNone"
  define l1reg where "l1reg = setting (defaults ++ spec) ''l1reg'' PyNone"
  define l2reg where "l2reg = setting (defaults ++ spec) ''l2reg'' PyNone"
  define ar where "ar = (if truthy l1reg then Some (regularizers_l1 l1reg) else None)"
  define kr where "kr = (if truthy l2reg then Some (regularizers_l2 l2reg) else None)"
  define kb where "kb = keras_layer_name_factory snake_case scope ''BatchNormalization'' st"
  define before where "before = (if truthy batchnorm then [BatchNormalization (fst kb)] else [])"
  define l_b where "l_b = (if truthy batchnorm then Call (BatchNormalization (fst kb)) [l] else l)"
  define kd where "kd = keras_layer_name_factory snake_case scope ''Dense''
                          (if truthy batchnorm then snd kb else st)"
  define rs where "rs = randint (snd kd)"
  define kdo where "kdo = keras_layer_name_factory snake_case scope ''Dropout'' (snd rs)"
  define after where "after = (if truthy dropout then [Dropout dropout (fst rs) (fst kdo)] else [])"
  have acc: "Dense_constructible Dense_init defaults spec"
    using assms
    by (simp add: Let_def split_def new_Dense_def pops pops_fst Dense_constructible_def
          split: if_splits option.splits)
  from assms acc obtain l1 st1 where
    rec: "stack_layers snake_case Dense_init l1 architecture defaults scope st1 = Inr r" and
    l1: "l1 = (if truthy dropout
               then Call (Dropout dropout (fst rs) (fst kdo))
                      [Call (Dense (fst kd) ar kr (overridden_opts defaults spec)) [l_b]]
               else Call (Dense (fst kd) ar kr (overridden_opts defaults spec)) [l_b])"
    by (simp add: Let_def split_def new_Dense_def pops pops_fst Dense_constructible_def
          batchnorm_def dropout_def l1reg_def l2reg_def ar_def kr_def
          kb_def l_b_def kd_def rs_def kdo_def split: if_splits option.splits)
  let ?new = "before @ [Dense (fst kd) ar kr (overridden_opts defaults spec)] @ after"
  have "chain l1 = chain l @ ?new"
    by (simp add: l1 l_b_def before_def after_def)
  moreover have "map unnamed ?new = expected_layers defaults spec"
    by (simp add: expected_layers_def Let_def before_def after_def ar_def kr_def
          batchnorm_def dropout_def l1reg_def l2reg_def)
  ultimately show ?thesis using rec acc by blast
qed

lemma stack_layers_chain:
  "stack_layers snake_case Dense_init l architecture defaults scope st = Inr (l', st') \<Longrightarrow>
   \<exists>new. chain l' = chain l @ new \<and>
         map unnamed new = concat (map (expected_layers defaults) architecture)"
proof (induction architecture arbitrary: l st)
  case Nil
  then show ?case by simp
next
  case (Cons spec architecture)
  from stack_layers_step [OF Cons.prems] obtain l1 st1 new1 where
    rec: "stack_layers snake_case Dense_init l1 architecture defaults scope st1 = Inr (l', st')" and
    ch: "chain l1 = chain l @ new1" and
    un: "map unnamed new1 = expected_layers defaults spec"
    by blast
  from Cons.IH [OF rec] obtain new where
    new: "chain l' = chain l1 @ new"
      "map unnamed new = concat (map (expected_layers defaults) architecture)"
    by blast
  have "chain l' = chain l @ (new1 @ new)" using new(1) ch by simp
  moreover have "map unnamed (new1 @ new)
                   = concat (map (expected_layers defaults) (spec # architecture))"
    using un new(2) by simp
  ultimately show ?case by blast
qed

lemma stack_layers_Cons_accepts:
  "Dense_constructible Dense_init defaults spec \<Longrightarrow>
   \<exists>l1 st1. stack_layers snake_case Dense_init l (spec # architecture) defaults scope st =
            stack_layers snake_case Dense_init l1 architecture defaults scope st1"
  by (simp add: Let_def split_def new_Dense_def pops pops_fst Dense_constructible_def
        split del: if_split cong: if_cong)
    blast

lemma stack_layers_Cons_rejects:
  "\<not> Dense_constructible Dense_init defaults spec \<Longrightarrow>
   \<exists>e. stack_layers snake_case Dense_init l (spec # architecture) defaults scope st = Inl e"
  by (auto simp: Let_def split_def new_Dense_def pops pops_fst Dense_constructible_def
        split: option.split)

lemma stack_layers_Cons_repeats:
  "repeats_keyword (overridden_opts defaults spec) \<Longrightarrow>
   stack_layers snake_case Dense_init l (spec # architecture) defaults scope st = Inl TypeError"
  by (simp add: Let_def split_def new_Dense_def pops pops_fst)

lemma stack_layers_returns:
  "(\<exists>r. stack_layers snake_case Dense_init l architecture defaults scope st = Inr r) \<longleftrightarrow>
   (\<forall>spec \<in> set architecture. Dense_constructible Dense_init defaults spec)"
proof (induction architecture arbitrary: l st)
  case Nil
  then show ?case by simp
next
  case (Cons spec architecture)
  show ?case
  proof (cases "Dense_constructible Dense_init defaults spec")
    case True
    from stack_layers_Cons_accepts [OF True] obtain l1 st1 where
      "stack_layers snake_case Dense_init l (spec # architecture) defaults scope st =
       stack_layers snake_case Dense_init l1 architecture defaults scope st1"
      by blast
    with True Cons.IH [of l1 st1] show ?thesis by simp
  next
    case False
    from stack_layers_Cons_rejects [OF False] obtain e where
      "stack_layers snake_case Dense_init l (spec # architecture) defaults scope st = Inl e"
      by blast
    with False show ?thesis by simp
  qed
qed

text \<open>
  Claim C7. When \<^verbatim>\<open>stack_layers\<close> returns, the layers it has put on top of its input are,
  entry by entry of the architecture list and names and seeds aside, the layers
  \<open>expected_layers\<close> lists: one \<open>Dense\<close> layer per entry, whose keyword arguments
  \<^verbatim>\<open>**opts\<close> are the defaults overridden by the entry (the entry wins on every key both
  have) without \<open>batchnorm\<close>, \<open>dropout\<close>, \<open>l1reg\<close> and \<open>l2reg\<close>; and these four settings
  decide the rest, and nothing else does: a \<open>BatchNormalization\<close> layer before the \<open>Dense\<close>
  layer exactly when \<open>batchnorm\<close> holds, the activity regularizer \<open>l1(l1reg)\<close> and the
  kernel regularizer \<open>l2(l2reg)\<close> of the \<open>Dense\<close> layer exactly when \<open>l1reg\<close> and \<open>l2reg\<close>
  hold, a \<open>Dropout\<close> layer of rate \<open>dropout\<close> after it exactly when \<open>dropout\<close> holds.
\<close>

theorem stack_layers_Dense_opts:
  assumes "stack_layers snake_case Dense_init l architecture defaults scope st = Inr (l', st')"
  shows "\<exists>new. chain l' = chain l @ new \<and>
           map unnamed new = concat (map (expected_layers defaults) architecture) \<and>
           Dense_opts new = map (overridden_opts defaults) architecture \<and>
           length (Dense_opts new) = length architecture \<and>
           (\<forall>i key. i < length architecture \<longrightarrow>
              (Dense_opts new ! i) key =
                (if key \<in> {''batchnorm'', ''dropout'', ''l1reg'', ''l2reg''} then None
                 else case (architecture ! i) key of
                        None \<Rightarrow> defaults key
                      | Some v \<Rightarrow> Some v))"
proof -
  from stack_layers_chain [OF assms] obtain new where
    new: "chain l' = chain l @ new"
      "map unnamed new = concat (map (expected_layers defaults) architecture)"
    by blast
  have "Dense_opts new = Dense_opts (map unnamed new)"
    by (simp add: Dense_opts_unnamed)
  then have opts: "Dense_opts new = map (overridden_opts defaults) architecture"
    by (simp add: new(2) Dense_opts_expected_all)
  have "length (Dense_opts new) = length architecture"
    by (simp add: opts)
  moreover have "\<forall>i key. i < length architecture \<longrightarrow>
              (Dense_opts new ! i) key =
                (if key \<in> {''batchnorm'', ''dropout'', ''l1reg'', ''l2reg''} then None
                 else case (architecture ! i) key of
                        None \<Rightarrow> defaults key
                      | Some v \<Rightarrow> Some v)"
    by (simp add: opts overridden_opts_def)
  ultimately show ?thesis using new opts by blast
qed

lemma example_overridden:
  "overridden_opts example_default (example_architecture ! 0)
     = [''units'' \<mapsto> PyInt 4, ''activation'' \<mapsto> PyStr ''relu'']"
  "overridden_opts example_default (example_architecture ! 1)
     = [''units'' \<mapsto> PyInt 2, ''activation'' \<mapsto> PyStr ''tanh'']"
  by (rule ext, simp add: overridden_opts_def example_architecture_def example_default_def)+

lemma example_expected:
  "concat (map (expected_layers example_default) example_architecture) =
     [BatchNormalization [],
      Dense [] None None (overridden_opts example_default (example_architecture ! 0)),
      Dropout (PyFloat 0.5) 0 [],
      Dense [] None (Some (regularizers_l2 (PyFloat 0.01)))
        (overridden_opts example_default (example_architecture ! 1))]"
  by (simp add: expected_layers_def Let_def setting_def example_architecture_def
        example_default_def)

lemma example_constructible:
  "\<forall>spec \<in> set example_architecture.
     Dense_constructible example_Dense_init example_default spec"
  by (simp add: example_architecture_def example_default_def Dense_constructible_def
        repeats_keyword_def overridden_opts_def example_Dense_init_def Let_def)

text \<open>The two entries of the example architecture. The first has batch normalisation and
  a dropout of rate 0.5, and no regularizer, its \<open>l1reg\<close> being 0; it takes its activation
  from the defaults. The second overrides the activation and has an L2 kernel
  regularizer, and no dropout, the default \<open>dropout\<close> being \<^verbatim>\<open>None\<close>. The keys taken
  out are absent.\<close>

theorem stack_layers_Dense_opts_example:
  "\<exists>l' st' new.
     stack_layers example_snake_case example_Dense_init
       (Call (InputLayer [None, Some 3] ''input'' 0) [])
       example_architecture example_default None example_state = Inr (l', st') \<and>
     chain l' = chain (Call (InputLayer [None, Some 3] ''input'' 0) []) @ new \<and>
     map unnamed new =
       [BatchNormalization [],
        Dense [] None None [''units'' \<mapsto> PyInt 4, ''activation'' \<mapsto> PyStr ''relu''],
        Dropout (PyFloat 0.5) 0 [],
        Dense [] None (Some (regularizers_l2 (PyFloat 0.01)))
          [''units'' \<mapsto> PyInt 2, ''activation'' \<mapsto> PyStr ''tanh'']] \<and>
     length (Dense_opts new) = 2 \<and>
     (Dense_opts new ! 0) ''units'' = Some (PyInt 4) \<and>
     (Dense_opts new ! 0) ''activation'' = Some (PyStr ''relu'') \<and>
     (Dense_opts new ! 0) ''dropout'' = None \<and>
     (Dense_opts new ! 1) ''activation'' = Some (PyStr ''tanh'') \<and>
     (Dense_opts new ! 1) ''l2reg'' = None"
proof -
  obtain l' st' where
    r: "stack_layers example_snake_case example_Dense_init
          (Call (InputLayer [None, Some 3] ''input'' 0) [])
          example_architecture example_default None example_state = Inr (l', st')"
    using example_constructible
      stack_layers_returns [of example_snake_case example_Dense_init
        "Call (InputLayer [None, Some 3] ''input'' 0) []"
        example_architecture example_default None example_state]
    by auto
  from stack_layers_Dense_opts [OF r] obtain new where
    new: "chain l' = chain (Call (InputLayer [None, Some 3] ''input'' 0) []) @ new"
      "map unnamed new = concat (map (expected_layers example_default) example_architecture)"
      "Dense_opts new = map (overridden_opts example_default) example_architecture"
      "length (Dense_opts new) = length example_architecture"
    by blast
  have len: "length example_architecture = 2"
    by (simp add: example_architecture_def)
  have two: "example_architecture = [example_architecture ! 0, example_architecture ! 1]"
    by (simp add: example_architecture_def)
  have opts: "Dense_opts new = [[''units'' \<mapsto> PyInt 4, ''activation'' \<mapsto> PyStr ''relu''],
                               [''units'' \<mapsto> PyInt 2, ''activation'' \<mapsto> PyStr ''tanh'']]"
    using new(3) example_overridden by (subst (asm) two) simp
  have un: "map unnamed new =
       [BatchNormalization [],
        Dense [] None None [''units'' \<mapsto> PyInt 4, ''activation'' \<mapsto> PyStr ''relu''],
        Dropout (PyFloat 0.5) 0 [],
        Dense [] None (Some (regularizers_l2 (PyFloat 0.01)))
          [''units'' \<mapsto> PyInt 2, ''activation'' \<mapsto> PyStr ''tanh'']]"
    using new(2) unfolding example_expected example_overridden by simp
  have "(Dense_opts new ! 0) ''units'' = Some (PyInt 4)"
       "(Dense_opts new ! 0) ''activation'' = Some (PyStr ''relu'')"
       "(Dense_opts new ! 0) ''dropout'' = None"
       "(Dense_opts new ! 1) ''activation'' = Some (PyStr ''tanh'')"
       "(Dense_opts new ! 1) ''l2reg'' = None"
    by (simp_all add: opts)
  with r new(1) un opts show ?thesis by auto
qed

subsection \<open>The classifier\<close>

lemma classifier_model_cases:
  "classifier_model snake_case Dense_init num_params architecture defaults scope st =
     (case stack_layers snake_case Dense_init
             (Call (InputLayer [None, Some num_params] (layer_name_factory scope ''input'')
                      (objects st)) [])
             architecture defaults scope (st\<lparr>objects := Suc (objects st)\<rparr>) of
        Inl e \<Rightarrow> Inl e
      | Inr r \<Rightarrow> Inr (new_Model
            [Call (InputLayer [None, Some num_params] (layer_name_factory scope ''input'')
                     (objects st)) []]
            [Call (Dense (layer_name_factory scope ''output'') None None
                      [''units'' \<mapsto> PyInt 1, ''activation'' \<mapsto> PyStr ''sigmoid''])
                [fst r]] scope (snd r)))"
  by (simp add: classifier_model_def Let_def Input_named split: sum.splits prod.splits)

lemma classifier_model_Inr:
  assumes "classifier_model snake_case Dense_init num_params architecture defaults scope st
             = Inr (m, st')"
  shows "\<exists>classifier_stack st2.
           stack_layers snake_case Dense_init
             (Call (InputLayer [None, Some num_params] (layer_name_factory scope ''input'')
                      (objects st)) [])
             architecture defaults scope (st\<lparr>objects := Suc (objects st)\<rparr>)
             = Inr (classifier_stack, st2) \<and>
           inputs m =
             [Call (InputLayer [None, Some num_params] (layer_name_factory scope ''input'')
                      (objects st)) []] \<and>
           outputs m =
             [Call (Dense (layer_name_factory scope ''output'') None None
                      [''units'' \<mapsto> PyInt 1, ''activation'' \<mapsto> PyStr ''sigmoid''])
                [classifier_stack]]"
proof -
  let ?i = "Call (InputLayer [None, Some num_params] (layer_name_factory scope ''input'')
                    (objects st)) []"
  let ?st = "st\<lparr>objects := Suc (objects st)\<rparr>"
  from assms obtain classifier_stack st2 where
    s: "stack_layers snake_case Dense_init ?i architecture defaults scope ?st
          = Inr (classifier_stack, st2)"
    by (auto simp: classifier_model_cases split: sum.splits)
  with assms have
    "new_Model [?i]
       [Call (Dense (layer_name_factory scope ''output'') None None
                [''units'' \<mapsto> PyInt 1, ''activation'' \<mapsto> PyStr ''sigmoid''])
          [classifier_stack]] scope st2 = (m, st')"
    by (simp add: classifier_model_cases)
  from new_Model_eq [OF this] s show ?thesis by blast
qed

lemma classifier_model_returns:
  "(\<exists>r. classifier_model snake_case Dense_init num_params architecture defaults scope st = Inr r)
     \<longleftrightarrow> (\<forall>spec \<in> set architecture. Dense_constructible Dense_init defaults spec)"
proof -
  let ?i = "Call (InputLayer [None, Some num_params] (layer_name_factory scope ''input'')
                    (objects st)) []"
  let ?st = "st\<lparr>objects := Suc (objects st)\<rparr>"
  have "(\<exists>r. classifier_model snake_case Dense_init num_params architecture defaults scope st
               = Inr r)
          \<longleftrightarrow> (\<exists>r. stack_layers snake_case Dense_init ?i architecture defaults scope ?st = Inr r)"
    by (simp add: classifier_model_cases split: sum.splits)
  also have "\<dots> \<longleftrightarrow> (\<forall>spec \<in> set architecture. Dense_constructible Dense_init defaults spec)"
    by (rule stack_layers_returns)
  finally show ?thesis .
qed

text \<open>
  Claim C4, amended. For every \<open>num_params \<ge> 1\<close>, and every architecture list and default
  dictionary from which the \<open>Dense\<close> layer of every entry can be constructed,
  \<^verbatim>\<open>classifier_model\<close> returns a model with a single input of shape \<open>(num_params,)\<close>, a
  new input layer, and a single output, a 1-unit \<open>Dense\<close> layer with sigmoid activation
  applied to what \<^verbatim>\<open>stack_layers\<close> returns for that input: the input with the layers of
  the entries stacked on it in order.
\<close>

theorem classifier_model_structure:
  assumes "1 \<le> num_params"
    and "\<forall>spec \<in> set architecture. Dense_constructible Dense_init defaults spec"
  shows "\<exists>m st' classifier_input classifier_stack st2 new.
           classifier_model snake_case Dense_init num_params architecture defaults scope st
             = Inr (m, st') \<and>
           classifier_input =
             Call (InputLayer [None, Some num_params] (layer_name_factory scope ''input'')
                     (objects st)) [] \<and>
           stack_layers snake_case Dense_init classifier_input architecture defaults scope
             (st\<lparr>objects := Suc (objects st)\<rparr>) = Inr (classifier_stack, st2) \<and>
           chain classifier_stack = chain classifier_input @ new \<and>
           map unnamed new = concat (map (expected_layers defaults) architecture) \<and>
           inputs m = [classifier_input] \<and>
           outputs m =
             [Call (Dense (layer_name_factory scope ''output'') None None
                      [''units'' \<mapsto> PyInt 1, ''activation'' \<mapsto> PyStr ''sigmoid''])
                [classifier_stack]]"
proof -
  from assms(2) obtain r where
    "classifier_model snake_case Dense_init num_params architecture defaults scope st = Inr r"
    using classifier_model_returns [of snake_case Dense_init num_params architecture defaults
        scope st]
    by blast
  then obtain m st' where
    r: "classifier_model snake_case Dense_init num_params architecture defaults scope st
          = Inr (m, st')"
    by (cases r) simp
  let ?i = "Call (InputLayer [None, Some num_params] (layer_name_factory scope ''input'')
                    (objects st)) []"
  from classifier_model_Inr [OF r] obtain classifier_stack st2 where
    s: "stack_layers snake_case Dense_init ?i architecture defaults scope
          (st\<lparr>objects := Suc (objects st)\<rparr>) = Inr (classifier_stack, st2)" and
    io: "inputs m = [?i]"
      "outputs m =
         [Call (Dense (layer_name_factory scope ''output'') None None
                  [''units'' \<mapsto> PyInt 1, ''activation'' \<mapsto> PyStr ''sigmoid''])
            [classifier_stack]]"
    by blast
  from stack_layers_chain [OF s] obtain new where
    "chain classifier_stack = chain ?i @ new"
    "map unnamed new = concat (map (expected_layers defaults) architecture)"
    by blast
  with r s io show ?thesis by blast
qed

text \<open>Without the condition on the entries the statement fails: an entry that names
  its layer has the keyword \<open>name\<close> passed twice, and no model is returned.\<close>

theorem classifier_model_rejects_named_entry:
  "classifier_model example_snake_case example_Dense_init 3
     [[''units'' \<mapsto> PyInt 4, ''name'' \<mapsto> PyStr ''hidden'']]
     Map.empty (Some ''classifier'') example_state = Inl TypeError"
proof -
  have "repeats_keyword
          (overridden_opts Map.empty [''units'' \<mapsto> PyInt 4, ''name'' \<mapsto> PyStr ''hidden''])"
    by (simp add: repeats_keyword_def overridden_opts_def)
  from stack_layers_Cons_repeats [OF this] show ?thesis
    by (simp add: classifier_model_cases del: stack_layers.simps)
qed

text \<open>Neither is a model returned when Keras refuses the arguments of an entry; with the
  stand-in for its check, an entry without a width.\<close>

lemma classifier_model_rejects_entry_without_units:
  "\<not> (\<exists>r. classifier_model example_snake_case example_Dense_init 3
            [[''activation'' \<mapsto> PyStr ''relu'']]
            Map.empty (Some ''classifier'') example_state = Inr r)"
  unfolding classifier_model_returns
  by (simp add: Dense_constructible_def example_Dense_init_def overridden_opts_def Let_def)

text \<open>The amended claim on the example architecture.\<close>

theorem classifier_model_structure_example:
  "\<exists>m st' classifier_stack st2 new.
     classifier_model example_snake_case example_Dense_init 3 example_architecture
       example_default (Some ''classifier'') example_state = Inr (m, st') \<and>
     stack_layers example_snake_case example_Dense_init
       (Call (InputLayer [None, Some 3] ''classifier/input'' 0) [])
       example_architecture example_default (Some ''classifier'')
       (example_state\<lparr>objects := 1\<rparr>) = Inr (classifier_stack, st2) \<and>
     chain classifier_stack = InputLayer [None, Some 3] ''classifier/input'' 0 # new \<and>
     map unnamed new =
       [BatchNormalization [],
        Dense [] None None [''units'' \<mapsto> PyInt 4, ''activation'' \<mapsto> PyStr ''relu''],
        Dropout (PyFloat 0.5) 0 [],
        Dense [] None (Some (regularizers_l2 (PyFloat 0.01)))
          [''units'' \<mapsto> PyInt 2, ''activation'' \<mapsto> PyStr ''tanh'']] \<and>
     inputs m = [Call (InputLayer [None, Some 3] ''classifier/input'' 0) []] \<and>
     outputs m =
       [Call (Dense ''classifier/output'' None None
                [''units'' \<mapsto> PyInt 1, ''activation'' \<mapsto> PyStr ''sigmoid''])
          [classifier_stack]]"
proof -
  have le: "(1::int) \<le> 3" by simp
  from classifier_model_structure [OF le example_constructible,
      of example_snake_case "Some ''classifier''" example_state]
  obtain m st' classifier_stack st2 new where
    "classifier_model example_snake_case example_Dense_init 3 example_architecture
       example_default (Some ''classifier'') example_state = Inr (m, st')"
    "stack_layers example_snake_case example_Dense_init
       (Call (InputLayer [None, Some 3] (layer_name_factory (Some ''classifier'') ''input'')
                (objects example_state)) [])
       example_architecture example_default (Some ''classifier'')
       (example_state\<lparr>objects := Suc (objects example_state)\<rparr>) = Inr (classifier_stack, st2)"
    "chain classifier_stack =
       chain (Call (InputLayer [None, Some 3] (layer_name_factory (Some ''classifier'') ''input'')
                (objects example_state)) []) @ new"
    "map unnamed new = concat (map (expected_layers example_default) example_architecture)"
    "inputs m = [Call (InputLayer [None, Some 3] (layer_name_factory (Some ''classifier'') ''input'')
                (objects example_state)) []]"
    "outputs m =
       [Call (Dense (layer_name_factory (Some ''classifier'') ''output'') None None
                [''units'' \<mapsto> PyInt 1, ''activation'' \<mapsto> PyStr ''sigmoid''])
          [classifier_stack]]"
    by blast
  then show ?thesis
    unfolding example_expected example_overridden
    by (simp add: layer_name_factory_def example_state_def)
qed

subsection \<open>The adversary\<close>


lemma adversary_model_cases:
  "adversary_model snake_case Dense_init gmm_dimensions gmm_components architecture defaults scope st =
     (case stack_layers snake_case Dense_init
             (Call (Concatenate (layer_name_factory scope ''concatenate''))
                [Call (InputLayer [None, Some 1] (layer_name_factory scope ''input_clf'') (objects st)) [],
                 Call (Lambda (\<lambda>pt. (pt - ln 200) / (ln 2000 - ln 200)) (fst (auto_name ''Lambda'' ''lambda''
                   (st\<lparr>objects := Suc (Suc (Suc (objects st)))\<rparr>))))
                   [Call (InputLayer [None, Some 1] (layer_name_factory scope ''input_pt'') (Suc (objects st))) []]])
             architecture defaults scope (snd (auto_name ''Lambda'' ''lambda''
                   (st\<lparr>objects := Suc (Suc (Suc (objects st)))\<rparr>))) of
        Inl e \<Rightarrow> Inl e
      | Inr r \<Rightarrow> Inr (new_Model
          [Call (InputLayer [None, Some 1] (layer_name_factory scope ''input_clf'') (objects st)) [],
           Call (InputLayer [None, Some 1] (layer_name_factory scope ''input_pt'') (Suc (objects st))) [],
           Call (InputLayer [None, Some gmm_dimensions] (layer_name_factory scope ''input_par'')
                   (Suc (Suc (objects st)))) []]
          [Call (PosteriorLayer gmm_components gmm_dimensions (layer_name_factory scope ''output''))
             ([Call (Dense (layer_name_factory scope ''coeffs'') None None
                       [''units'' \<mapsto> gmm_components, ''activation'' \<mapsto> PyStr ''softmax''])
                 [fst r]] @
              map (\<lambda>i. Call (Dense (layer_name_factory scope (''means_'' @ format_int i)) None None
                               [''units'' \<mapsto> gmm_components, ''activation'' \<mapsto> PyStr ''sigmoid''])
                         [fst r])
                [1..gmm_dimensions] @
              map (\<lambda>i. Call (Dense (layer_name_factory scope (''widths_'' @ format_int i)) None None
                               [''units'' \<mapsto> gmm_components, ''activation'' \<mapsto> PyStr ''softplus''])
                         [fst r])
                [1..gmm_dimensions] @
              [Call (InputLayer [None, Some gmm_dimensions] (layer_name_factory scope ''input_par'')
                   (Suc (Suc (objects st)))) []])]
          scope (snd r)))"
  by (simp add: adversary_model_def Let_def Input_named split_def split: sum.splits)

lemma adversary_model_Inr:
  assumes "adversary_model snake_case Dense_init gmm_dimensions gmm_components architecture defaults scope st
             = Inr (m, st')"
  shows "\<exists>features n_lambda st1 st2.
     stack_layers snake_case Dense_init
       (Call (Concatenate (layer_name_factory scope ''concatenate''))
          [Call (InputLayer [None, Some 1] (layer_name_factory scope ''input_clf'') (objects st)) [],
           Call (Lambda (\<lambda>pt. (pt - ln 200) / (ln 2000 - ln 200)) n_lambda)
             [Call (InputLayer [None, Some 1] (layer_name_factory scope ''input_pt'') (Suc (objects st))) []]])
       architecture defaults scope st1 = Inr (features, st2) \<and>
     inputs m =
       [Call (InputLayer [None, Some 1] (layer_name_factory scope ''input_clf'') (objects st)) [],
        Call (InputLayer [None, Some 1] (layer_name_factory scope ''input_pt'') (Suc (objects st))) [],
        Call (InputLayer [None, Some gmm_dimensions] (layer_name_factory scope ''input_par'')
                   (Suc (Suc (objects st)))) []] \<and>
     outputs m =
       [Call (PosteriorLayer gmm_components gmm_dimensions (layer_name_factory scope ''output''))
          ([Call (Dense (layer_name_factory scope ''coeffs'') None None
                    [''units'' \<mapsto> gmm_components, ''activation'' \<mapsto> PyStr ''softmax''])
              [features]] @
           map (\<lambda>i. Call (Dense (layer_name_factory scope (''means_'' @ format_int i)) None None
                            [''units'' \<mapsto> gmm_components, ''activation'' \<mapsto> PyStr ''sigmoid''])
                      [features])
             [1..gmm_dimensions] @
           map (\<lambda>i. Call (Dense (layer_name_factory scope (''widths_'' @ format_int i)) None None
                            [''units'' \<mapsto> gmm_components, ''activation'' \<mapsto> PyStr ''softplus''])
                      [features])
             [1..gmm_dimensions] @
           [Call (InputLayer [None, Some gmm_dimensions] (layer_name_factory scope ''input_par'')
                   (Suc (Suc (objects st)))) []])]"
proof -
  let ?s = "stack_layers snake_case Dense_init
             (Call (Concatenate (layer_name_factory scope ''concatenate''))
                [Call (InputLayer [None, Some 1] (layer_name_factory scope ''input_clf'') (objects st)) [],
                 Call (Lambda (\<lambda>pt. (pt - ln 200) / (ln 2000 - ln 200)) (fst (auto_name ''Lambda'' ''lambda''
                   (st\<lparr>objects := Suc (Suc (Suc (objects st)))\<rparr>))))
                   [Call (InputLayer [None, Some 1] (layer_name_factory scope ''input_pt'') (Suc (objects st))) []]])
             architecture defaults scope (snd (auto_name ''Lambda'' ''lambda''
                   (st\<lparr>objects := Suc (Suc (Suc (objects st)))\<rparr>)))"
  from assms obtain features st2 where s: "?s = Inr (features, st2)"
    by (auto simp: adversary_model_cases split: sum.splits)
  from assms s have "new_Model
          [Call (InputLayer [None, Some 1] (layer_name_factory scope ''input_clf'') (objects st)) [],
           Call (InputLayer [None, Some 1] (layer_name_factory scope ''input_pt'') (Suc (objects st))) [],
           Call (InputLayer [None, Some gmm_dimensions] (layer_name_factory scope ''input_par'')
                   (Suc (Suc (objects st)))) []]
          [Call (PosteriorLayer gmm_components gmm_dimensions (layer_name_factory scope ''output''))
             ([Call (Dense (layer_name_factory scope ''coeffs'') None None
                       [''units'' \<mapsto> gmm_components, ''activation'' \<mapsto> PyStr ''softmax''])
                 [features]] @
              map (\<lambda>i. Call (Dense (layer_name_factory scope (''means_'' @ format_int i)) None None
                               [''units'' \<mapsto> gmm_components, ''activation'' \<mapsto> PyStr ''sigmoid''])
                         [features])
                [1..gmm_dimensions] @
              map (\<lambda>i. Call (Dense (layer_name_factory scope (''widths_'' @ format_int i)) None None
                               [''units'' \<mapsto> gmm_components, ''activation'' \<mapsto> PyStr ''softplus''])
                         [features])
                [1..gmm_dimensions] @
              [Call (InputLayer [None, Some gmm_dimensions] (layer_name_factory scope ''input_par'')
                   (Suc (Suc (objects st)))) []])]
          scope st2 = (m, st')"
    by (simp add: adversary_model_cases)
  from new_Model_eq [OF this] s show ?thesis by blast
qed

lemma adversary_model_default_architecture:
  "\<exists>m st'. adversary_model snake_case Dense_init gmm_dimensions gmm_components [] defaults scope st
             = Inr (m, st')"
  by (simp add: adversary_model_cases split: prod.splits)

lemma adversary_model_returns:
  "(\<exists>r. adversary_model snake_case Dense_init gmm_dimensions gmm_components architecture defaults scope st
           = Inr r)
   \<longleftrightarrow> (\<forall>spec \<in> set architecture. Dense_constructible Dense_init defaults spec)"
proof -
  let ?s = "stack_layers snake_case Dense_init
             (Call (Concatenate (layer_name_factory scope ''concatenate''))
                [Call (InputLayer [None, Some 1] (layer_name_factory scope ''input_clf'') (objects st)) [],
                 Call (Lambda (\<lambda>pt. (pt - ln 200) / (ln 2000 - ln 200)) (fst (auto_name ''Lambda'' ''lambda''
                   (st\<lparr>objects := Suc (Suc (Suc (objects st)))\<rparr>))))
                   [Call (InputLayer [None, Some 1] (layer_name_factory scope ''input_pt'') (Suc (objects st))) []]])
             architecture defaults scope (snd (auto_name ''Lambda'' ''lambda''
                   (st\<lparr>objects := Suc (Suc (Suc (objects st)))\<rparr>)))"
  have "(\<exists>r. adversary_model snake_case Dense_init gmm_dimensions gmm_components architecture defaults scope st
           = Inr r) \<longleftrightarrow> (\<exists>r. ?s = Inr r)"
    by (simp add: adversary_model_cases split: sum.splits)
  also have "\<dots> \<longleftrightarrow> (\<forall>spec \<in> set architecture. Dense_constructible Dense_init defaults spec)"
    by (rule stack_layers_returns)
  finally show ?thesis .
qed

text \<open>
  Claim C1. For \<open>gmm_dimensions \<ge> 1\<close> and \<open>gmm_components \<ge> 1\<close>, \<^verbatim>\<open>adversary_model\<close> returns
  a model for the default architecture, and every model it returns has exactly three
  inputs (the classifier output of shape \<open>(1,)\<close>, the pt input of shape \<open>(1,)\<close> and the
  input of the \<open>gmm_dimensions\<close> decorrelation variables) and one output, the
  \<open>PosteriorLayer\<close> applied to the list: one coefficient head, the mean heads for
  \<open>1, \<dots>, gmm_dimensions\<close>, the width heads for \<open>1, \<dots>, gmm_dimensions\<close>, the
  decorrelation-variable input. Every head is a \<open>Dense\<close> layer of \<open>gmm_components\<close> units
  on the same tensor, the one \<^verbatim>\<open>stack_layers\<close> returns for the concatenated classifier
  output and rescaled pt.
\<close>

theorem adversary_model_structure:
  assumes "1 \<le> gmm_dimensions" and "1 \<le> gmm_components"
  shows "(\<exists>m st'. adversary_model snake_case Dense_init gmm_dimensions (PyInt gmm_components) [] defaults
                    scope st = Inr (m, st')) \<and>
         (\<forall>architecture m st'.
            adversary_model snake_case Dense_init gmm_dimensions (PyInt gmm_components) architecture defaults
              scope st = Inr (m, st') \<longrightarrow>
            (\<exists>input_clf input_pt input_par n_lambda st1 st2 features coeffs means widths.
               input_clf = Call (InputLayer [None, Some 1] (layer_name_factory scope ''input_clf'') (objects st)) [] \<and>
               input_pt = Call (InputLayer [None, Some 1] (layer_name_factory scope ''input_pt'') (Suc (objects st))) [] \<and>
               input_par =
                 Call (InputLayer [None, Some gmm_dimensions] (layer_name_factory scope ''input_par'')
                   (Suc (Suc (objects st)))) [] \<and>
               inputs m = [input_clf, input_pt, input_par] \<and>
               stack_layers snake_case Dense_init
                 (Call (Concatenate (layer_name_factory scope ''concatenate''))
                    [input_clf,
                     Call (Lambda (\<lambda>pt. (pt - ln 200) / (ln 2000 - ln 200)) n_lambda) [input_pt]])
                 architecture defaults scope st1 = Inr (features, st2) \<and>
               outputs m =
                 [Call (PosteriorLayer (PyInt gmm_components) gmm_dimensions
                          (layer_name_factory scope ''output''))
                    ([coeffs] @ means @ widths @ [input_par])] \<and>
               coeffs =
                 Call (Dense (layer_name_factory scope ''coeffs'') None None
                         [''units'' \<mapsto> PyInt gmm_components, ''activation'' \<mapsto> PyStr ''softmax''])
                   [features] \<and>
               means =
                 map (\<lambda>i. Call (Dense (layer_name_factory scope (''means_'' @ format_int i)) None None
                                  [''units'' \<mapsto> PyInt gmm_components,
                                   ''activation'' \<mapsto> PyStr ''sigmoid''])
                            [features])
                   [1..gmm_dimensions] \<and>
               widths =
                 map (\<lambda>i. Call (Dense (layer_name_factory scope (''widths_'' @ format_int i)) None None
                                  [''units'' \<mapsto> PyInt gmm_components,
                                   ''activation'' \<mapsto> PyStr ''softplus''])
                            [features])
                   [1..gmm_dimensions] \<and>
               length means = nat gmm_dimensions \<and> length widths = nat gmm_dimensions \<and>
               (\<forall>t \<in> set ([coeffs] @ means @ widths).
                  \<exists>n opts. t = Call (Dense n None None opts) [features] \<and>
                           opts ''units'' = Some (PyInt gmm_components))))"
proof (intro conjI allI impI)
  show "\<exists>m st'. adversary_model snake_case Dense_init gmm_dimensions (PyInt gmm_components) [] defaults
                    scope st = Inr (m, st')"
    by (rule adversary_model_default_architecture)
next
  fix architecture m st'
  assume "adversary_model snake_case Dense_init gmm_dimensions (PyInt gmm_components) architecture defaults
              scope st = Inr (m, st')"
  from adversary_model_Inr [OF this] obtain features n_lambda st1 st2 where
    s: "stack_layers snake_case Dense_init
       (Call (Concatenate (layer_name_factory scope ''concatenate''))
          [Call (InputLayer [None, Some 1] (layer_name_factory scope ''input_clf'') (objects st)) [],
           Call (Lambda (\<lambda>pt. (pt - ln 200) / (ln 2000 - ln 200)) n_lambda)
             [Call (InputLayer [None, Some 1] (layer_name_factory scope ''input_pt'') (Suc (objects st))) []]])
       architecture defaults scope st1 = Inr (features, st2)" and
    i: "inputs m =
       [Call (InputLayer [None, Some 1] (layer_name_factory scope ''input_clf'') (objects st)) [],
        Call (InputLayer [None, Some 1] (layer_name_factory scope ''input_pt'') (Suc (objects st))) [],
        Call (InputLayer [None, Some gmm_dimensions] (layer_name_factory scope ''input_par'')
                   (Suc (Suc (objects st)))) []]" and
    out: "outputs m =
       [Call (PosteriorLayer (PyInt gmm_components) gmm_dimensions (layer_name_factory scope ''output''))
          ([Call (Dense (layer_name_factory scope ''coeffs'') None None
                    [''units'' \<mapsto> PyInt gmm_components, ''activation'' \<mapsto> PyStr ''softmax''])
              [features]] @
           map (\<lambda>i. Call (Dense (layer_name_factory scope (''means_'' @ format_int i)) None None
                            [''units'' \<mapsto> PyInt gmm_components, ''activation'' \<mapsto> PyStr ''sigmoid''])
                      [features])
             [1..gmm_dimensions] @
           map (\<lambda>i. Call (Dense (layer_name_factory scope (''widths_'' @ format_int i)) None None
                            [''units'' \<mapsto> PyInt gmm_components, ''activation'' \<mapsto> PyStr ''softplus''])
                      [features])
             [1..gmm_dimensions] @
           [Call (InputLayer [None, Some gmm_dimensions] (layer_name_factory scope ''input_par'')
                   (Suc (Suc (objects st)))) []])]"
    by blast
  define coeffs where "coeffs =
                 Call (Dense (layer_name_factory scope ''coeffs'') None None
                         [''units'' \<mapsto> PyInt gmm_components, ''activation'' \<mapsto> PyStr ''softmax''])
                   [features]"
  define means where "means =
                 map (\<lambda>i. Call (Dense (layer_name_factory scope (''means_'' @ format_int i)) None None
                                  [''units'' \<mapsto> PyInt gmm_components,
                                   ''activation'' \<mapsto> PyStr ''sigmoid''])
                            [features])
                   [1..gmm_dimensions]"
  define widths where "widths =
                 map (\<lambda>i. Call (Dense (layer_name_factory scope (''widths_'' @ format_int i)) None None
                                  [''units'' \<mapsto> PyInt gmm_components,
                                   ''activation'' \<mapsto> PyStr ''softplus''])
                            [features])
                   [1..gmm_dimensions]"
  have len: "length means = nat gmm_dimensions" "length widths = nat gmm_dimensions"
    by (simp_all add: means_def widths_def)
  have heads: "\<forall>t \<in> set ([coeffs] @ means @ widths).
                  \<exists>n opts. t = Call (Dense n None None opts) [features] \<and>
                           opts ''units'' = Some (PyInt gmm_components)"
    by (auto simp: coeffs_def means_def widths_def)
  have out': "outputs m =
                 [Call (PosteriorLayer (PyInt gmm_components) gmm_dimensions
                          (layer_name_factory scope ''output''))
                    ([coeffs] @ means @ widths @
                     [Call (InputLayer [None, Some gmm_dimensions] (layer_name_factory scope ''input_par'')
                   (Suc (Suc (objects st)))) []])]"
    using out by (simp add: coeffs_def means_def widths_def)
  show "\<exists>input_clf input_pt input_par n_lambda st1 st2 features coeffs means widths.
               input_clf = Call (InputLayer [None, Some 1] (layer_name_factory scope ''input_clf'') (objects st)) [] \<and>
               input_pt = Call (InputLayer [None, Some 1] (layer_name_factory scope ''input_pt'') (Suc (objects st))) [] \<and>
               input_par =
                 Call (InputLayer [None, Some gmm_dimensions] (layer_name_factory scope ''input_par'')
                   (Suc (Suc (objects st)))) [] \<and>
               inputs m = [input_clf, input_pt, input_par] \<and>
               stack_layers snake_case Dense_init
                 (Call (Concatenate (layer_name_factory scope ''concatenate''))
                    [input_clf,
                     Call (Lambda (\<lambda>pt. (pt - ln 200) / (ln 2000 - ln 200)) n_lambda) [input_pt]])
                 architecture defaults scope st1 = Inr (features, st2) \<and>
               outputs m =
                 [Call (PosteriorLayer (PyInt gmm_components) gmm_dimensions
                          (layer_name_factory scope ''output''))
                    ([coeffs] @ means @ widths @ [input_par])] \<and>
               coeffs =
                 Call (Dense (layer_name_factory scope ''coeffs'') None None
                         [''units'' \<mapsto> PyInt gmm_components, ''activation'' \<mapsto> PyStr ''softmax''])
                   [features] \<and>
               means =
                 map (\<lambda>i. Call (Dense (layer_name_factory scope (''means_'' @ format_int i)) None None
                                  [''units'' \<mapsto> PyInt gmm_components,
                                   ''activation'' \<mapsto> PyStr ''sigmoid''])
                            [features])
                   [1..gmm_dimensions] \<and>
               widths =
                 map (\<lambda>i. Call (Dense (layer_name_factory scope (''widths_'' @ format_int i)) None None
                                  [''units'' \<mapsto> PyInt gmm_components,
                                   ''activation'' \<mapsto> PyStr ''softplus''])
                            [features])
                   [1..gmm_dimensions] \<and>
               length means = nat gmm_dimensions \<and> length widths = nat gmm_dimensions \<and>
               (\<forall>t \<in> set ([coeffs] @ means @ widths).
                  \<exists>n opts. t = Call (Dense n None None opts) [features] \<and>
                           opts ''units'' = Some (PyInt gmm_components))"
    using s i out' len heads coeffs_def means_def widths_def by blast
qed

text \<open>Two decorrelation variables and three components, on the example architecture.\<close>

theorem adversary_model_structure_example:
  "\<exists>m st' features coeffs means widths input_par.
     adversary_model example_snake_case example_Dense_init 2 (PyInt 3) example_architecture example_default
       (Some ''adversary'') example_state = Inr (m, st') \<and>
     length (inputs m) = 3 \<and>
     outputs m =
       [Call (PosteriorLayer (PyInt 3) 2 (layer_name_factory (Some ''adversary'') ''output''))
          ([coeffs] @ means @ widths @ [input_par])] \<and>
     input_par = Call (InputLayer [None, Some 2]
                         (layer_name_factory (Some ''adversary'') ''input_par'') 2) [] \<and>
     input_par = inputs m ! 2 \<and>
     length means = 2 \<and> length widths = 2 \<and>
     coeffs = Call (Dense (layer_name_factory (Some ''adversary'') ''coeffs'') None None
                      [''units'' \<mapsto> PyInt 3, ''activation'' \<mapsto> PyStr ''softmax''])
                [features]"
proof -
  have d: "(1::int) \<le> 2" and k: "(1::int) \<le> 3" by simp_all
  note t = adversary_model_structure [OF d k, of example_snake_case example_Dense_init
      example_default "Some ''adversary''" example_state]
  from example_constructible obtain m st' where
    r: "adversary_model example_snake_case example_Dense_init 2 (PyInt 3) example_architecture example_default
       (Some ''adversary'') example_state = Inr (m, st')"
    using adversary_model_returns [of example_snake_case example_Dense_init 2 "PyInt 3" example_architecture
        example_default "Some ''adversary''" example_state]
    by auto
  from t r obtain input_clf input_pt input_par features coeffs means widths where
    "input_par = Call (InputLayer [None, Some 2]
                         (layer_name_factory (Some ''adversary'') ''input_par'')
                         (Suc (Suc (objects example_state)))) []"
    "inputs m = [input_clf, input_pt, input_par]"
    "outputs m =
       [Call (PosteriorLayer (PyInt 3) 2 (layer_name_factory (Some ''adversary'') ''output''))
          ([coeffs] @ means @ widths @ [input_par])]"
    "coeffs = Call (Dense (layer_name_factory (Some ''adversary'') ''coeffs'') None None
                      [''units'' \<mapsto> PyInt 3, ''activation'' \<mapsto> PyStr ''softmax''])
                [features]"
    "length means = nat 2" "length widths = nat 2"
    by blast
  with r show ?thesis by (auto simp: example_state_def numeral_2_eq_2)
qed

subsection \<open>The example classifier and adversary\<close>

lemma format_small: "format_nat (Suc 0) = ''1''" "format_int 1 = ''1''" "format_int 2 = ''2''"
  by (simp_all add: format_int_def format_nat.simps digit_def)

lemmas eval_defs = classifier_model_def adversary_model_def
  Let_def Input_def new_Model_def container_layers_def layer_name_factory_def auto_name_def get_uid_def
  example_state_def format_small upto.simps

lemma example_classifier_eq:
  "classifier_model example_snake_case example_Dense_init 3 [] Map.empty (Some ''classifier'')
     example_state =
   Inr (Model [Call (InputLayer [None, Some 3] ''classifier/input'' 0) []]
          [Call (Dense ''classifier/output'' None None
                   [''units'' \<mapsto> PyInt 1, ''activation'' \<mapsto> PyStr ''sigmoid''])
             [Call (InputLayer [None, Some 3] ''classifier/input'' 0) []]]
          ''classifier'' True
          [InputLayer [None, Some 3] ''classifier/input'' 0,
           Dense ''classifier/output'' None None
             [''units'' \<mapsto> PyInt 1, ''activation'' \<mapsto> PyStr ''sigmoid'']],
        example_state\<lparr>objects := 1\<rparr>)"
  by (simp add: eval_defs)

lemma example_classifier_layers:
  "layers example_classifier =
     [InputLayer [None, Some 3] ''classifier/input'' 0,
      Dense ''classifier/output'' None None
        [''units'' \<mapsto> PyInt 1, ''activation'' \<mapsto> PyStr ''sigmoid'']]"
  unfolding example_classifier_def by (simp add: example_classifier_eq)


lemma example_adversary_state:
  "snd (projr (adversary_model example_snake_case example_Dense_init 2 (PyInt 3) []
                 Map.empty (Some ''adversary'') (example_state\<lparr>objects := 1\<rparr>)))
     = example_built"
  by (simp add: adversary_model_cases new_Model_def auto_name_def get_uid_def Let_def
        example_state_def example_built_def fun_eq_iff)




subsection \<open>The combined model\<close>

lemma item0_Inr: "item0 xs = Inr x \<longleftrightarrow> (\<exists>rest. xs = x # rest)"
  by (cases xs) (auto simp: item0_def)

lemma item0_Inl: "item0 xs = Inl e \<longleftrightarrow> xs = [] \<and> e = IndexError"
  by (cases xs) (auto simp: item0_def)

lemma is_InputLayer_iff: "is_InputLayer l \<longleftrightarrow> (\<exists>s n i. l = InputLayer s n i)"
  by (cases l) auto

lemma py_mul_Inr:
  "py_mul number_mul a b = Inr c \<longleftrightarrow> (\<exists>x y. a = Some x \<and> b = Some y \<and> c = number_mul x y)"
  by (auto simp: py_mul_def split: option.splits)

lemma py_mul_None: "a = None \<or> b = None \<Longrightarrow> py_mul number_mul a b = Inl TypeError"
  by (auto simp: py_mul_def split: option.splits)

lemma keras_layer_name_objects:
  "keras_layer_name_factory snake_case scope cls st = (n, st') \<Longrightarrow> objects st' = objects st"
  by (auto simp: keras_layer_name_factory_def get_uid_def Let_def)

lemma new_Model_objects: "new_Model ins outs nm st = (m, st') \<Longrightarrow> objects st' = objects st"
  using auto_name_objects [of "''model''" "''model''" st]
  by (auto simp: new_Model_def Let_def split: option.splits if_splits prod.splits)

lemma first_input_layer:
  assumes "\<exists>l \<in> set ls. is_InputLayer l \<and> endswith (name l) suffix"
  shows "\<exists>s n i rest. filter (\<lambda>l. endswith (name l) suffix) (filter is_InputLayer ls)
                        = InputLayer s n i # rest"
proof -
  let ?f = "filter (\<lambda>l. endswith (name l) suffix) (filter is_InputLayer ls)"
  from assms have "?f \<noteq> []"
    by (auto simp: filter_empty_conv)
  then obtain l rest where f: "?f = l # rest"
    by (cases ?f) auto
  then have "l \<in> set ?f" by simp
  then have "is_InputLayer l" by simp
  with f show ?thesis by (auto simp: is_InputLayer_iff)
qed


lemma some_input_layer:
  assumes "filter (\<lambda>l. endswith (name l) suffix) (filter is_InputLayer ls) = l # rest"
  shows "\<exists>l \<in> set ls. is_InputLayer l \<and> endswith (name l) suffix"
proof -
  have "l \<in> set (filter (\<lambda>l. endswith (name l) suffix) (filter is_InputLayer ls))"
    unfolding assms by simp
  then show ?thesis by auto
qed

lemma combined_model_Inr:
  assumes "combined_model snake_case node_shape number_mul classifier adversary lambda_reg lr_ratio
             scope st = Inr (m, st')"
  shows "\<exists>l0 rest s0 x y s1 n1 d1 r1 s2 n2 d2 r2 i_clf i_pt i_par n_grl.
     layers classifier = l0 # rest \<and> input_shape node_shape l0 = Inr s0 \<and>
     lambda_reg = Some x \<and> lr_ratio = Some y \<and>
     filter (\<lambda>l. endswith (name l) ''_pt'') (filter is_InputLayer (layers adversary))
       = InputLayer s1 n1 d1 # r1 \<and>
     filter (\<lambda>l. endswith (name l) ''_par'') (filter is_InputLayer (layers adversary))
       = InputLayer s2 n2 d2 # r2 \<and>
     inputs m = [Call (InputLayer (None # tl s0) i_clf (objects st)) [],
                 Call (InputLayer (None # tl s1) i_pt (Suc (objects st))) [],
                 Call (InputLayer (None # tl s2) i_par (Suc (Suc (objects st)))) []] \<and>
     outputs m = [Call (ModelLayer classifier)
                    [Call (InputLayer (None # tl s0) i_clf (objects st)) []],
                  Call (ModelLayer adversary)
                    [Call (GradientReversalLayer (number_mul x y) n_grl)
                       [Call (ModelLayer classifier)
                          [Call (InputLayer (None # tl s0) i_clf (objects st)) []]],
                     Call (InputLayer (None # tl s1) i_pt (Suc (objects st))) [],
                     Call (InputLayer (None # tl s2) i_par (Suc (Suc (objects st)))) []]] \<and>
     objects st' = Suc (Suc (Suc (objects st)))"
proof -
  note defs = combined_model_def Let_def
  from assms obtain l0 where l0: "item0 (layers classifier) = Inr l0"
    by (auto simp: defs split: sum.splits)
  from assms l0 obtain s0 where s0: "input_shape node_shape l0 = Inr s0"
    by (auto simp: defs split: sum.splits)
  obtain n0 st0 where
    i0: "Input (tl s0) (Some (layer_name_factory scope (replace_slash (name l0)))) st
           = (Call (InputLayer (None # tl s0) n0 (objects st)) [], st0)" and
    o0: "objects st0 = Suc (objects st)"
    using Input_layer by blast
  from assms l0 s0 i0 obtain hp where hp: "py_mul number_mul lambda_reg lr_ratio = Inr hp"
    by (auto simp: defs split: sum.splits)
  obtain ng st1 where
    g: "keras_layer_name_factory snake_case scope ''GradientReversalLayer'' st0 = (ng, st1)"
    by (cases "keras_layer_name_factory snake_case scope ''GradientReversalLayer'' st0")
  from keras_layer_name_objects [OF g] o0 have o1: "objects st1 = Suc (objects st)" by simp
  from assms l0 s0 i0 hp g obtain l1 where l1:
    "item0 (filter (\<lambda>l. endswith (name l) ''_pt'') (filter is_InputLayer (layers adversary)))
       = Inr l1"
    by (auto simp: defs split: sum.splits)
  from assms l0 s0 i0 hp g l1 obtain l2 where l2:
    "item0 (filter (\<lambda>l. endswith (name l) ''_par'') (filter is_InputLayer (layers adversary)))
       = Inr l2"
    by (auto simp: defs split: sum.splits)
  from assms l0 s0 i0 hp g l1 l2 obtain s1 where s1: "input_shape node_shape l1 = Inr s1"
    by (auto simp: defs split: sum.splits)
  obtain n1 st2 where
    i1: "Input (tl s1) (Some (layer_name_factory scope (replace_slash (name l1)))) st1
           = (Call (InputLayer (None # tl s1) n1 (Suc (objects st))) [], st2)" and
    o2: "objects st2 = Suc (Suc (objects st))"
    using Input_layer [of "tl s1" "Some (layer_name_factory scope (replace_slash (name l1)))" st1]
      o1 by auto
  from assms l0 s0 i0 hp g l1 l2 s1 i1 obtain s2 where s2: "input_shape node_shape l2 = Inr s2"
    by (auto simp: defs split: sum.splits)
  obtain n2 st3 where
    i2: "Input (tl s2) (Some (layer_name_factory scope (replace_slash (name l2)))) st2
           = (Call (InputLayer (None # tl s2) n2 (Suc (Suc (objects st)))) [], st3)" and
    o3: "objects st3 = Suc (Suc (Suc (objects st)))"
    using Input_layer [of "tl s2" "Some (layer_name_factory scope (replace_slash (name l2)))" st2]
      o2 by auto
  from assms l0 s0 i0 hp g l1 l2 s1 i1 s2 i2
  have m: "new_Model
       [Call (InputLayer (None # tl s0) n0 (objects st)) [],
        Call (InputLayer (None # tl s1) n1 (Suc (objects st))) [],
        Call (InputLayer (None # tl s2) n2 (Suc (Suc (objects st)))) []]
       [Call (ModelLayer classifier) [Call (InputLayer (None # tl s0) n0 (objects st)) []],
        Call (ModelLayer adversary)
          [Call (GradientReversalLayer hp ng)
             [Call (ModelLayer classifier) [Call (InputLayer (None # tl s0) n0 (objects st)) []]],
           Call (InputLayer (None # tl s1) n1 (Suc (objects st))) [],
           Call (InputLayer (None # tl s2) n2 (Suc (Suc (objects st)))) []]]
       scope st3 = (m, st')"
    by (simp add: defs)
  note mf = new_Model_eq [OF m]
  from new_Model_objects [OF m] o3 have o: "objects st' = Suc (Suc (Suc (objects st)))" by simp
  from l0 obtain rest where c: "layers classifier = l0 # rest"
    by (auto simp: item0_Inr)
  from l1 obtain rest1 where
    f1: "filter (\<lambda>l. endswith (name l) ''_pt'') (filter is_InputLayer (layers adversary))
           = l1 # rest1"
    by (auto simp: item0_Inr)
  from some_input_layer [OF f1] first_input_layer [of "layers adversary" "''_pt''"] f1
  obtain t1 nm1 d1 where l1': "l1 = InputLayer t1 nm1 d1" by auto
  with s1 have "t1 = s1" by simp
  with f1 l1' have a1:
    "filter (\<lambda>l. endswith (name l) ''_pt'') (filter is_InputLayer (layers adversary))
       = InputLayer s1 nm1 d1 # rest1"
    by simp
  from l2 obtain rest2 where
    f2: "filter (\<lambda>l. endswith (name l) ''_par'') (filter is_InputLayer (layers adversary))
           = l2 # rest2"
    by (auto simp: item0_Inr)
  from some_input_layer [OF f2] first_input_layer [of "layers adversary" "''_par''"] f2
  obtain t2 nm2 d2 where l2': "l2 = InputLayer t2 nm2 d2" by auto
  with s2 have "t2 = s2" by simp
  with f2 l2' have a2:
    "filter (\<lambda>l. endswith (name l) ''_par'') (filter is_InputLayer (layers adversary))
       = InputLayer s2 nm2 d2 # rest2"
    by simp
  from hp obtain x y where xy: "lambda_reg = Some x" "lr_ratio = Some y" "hp = number_mul x y"
    by (auto simp: py_mul_Inr)
  show ?thesis using c s0 a1 a2 xy mf o by blast
qed


lemma combined_model_TypeError:
  assumes "layers classifier = l0 # rest" and "input_shape node_shape l0 = Inr s0"
    and "lambda_reg = None \<or> lr_ratio = None"
  shows "combined_model snake_case node_shape number_mul classifier adversary lambda_reg lr_ratio
           scope st = Inl TypeError"
  using assms(1,2) py_mul_None [OF assms(3)]
  by (simp add: combined_model_def Let_def item0_def split_def)


lemma combined_model_no_layers:
  assumes "layers classifier = []"
  shows "combined_model snake_case node_shape number_mul classifier adversary lambda_reg lr_ratio
           scope st = Inl IndexError"
  using assms by (simp add: combined_model_def Let_def item0_def)

lemma combined_model_no_shape:
  assumes "layers classifier = l0 # rest" and "input_shape node_shape l0 = Inl e"
  shows "combined_model snake_case node_shape number_mul classifier adversary lambda_reg lr_ratio
           scope st = Inl e"
  using assms by (simp add: combined_model_def Let_def item0_def)

lemma combined_model_Inl_None:
  assumes "lambda_reg = None \<or> lr_ratio = None"
  shows "\<exists>e. combined_model snake_case node_shape number_mul classifier adversary lambda_reg
               lr_ratio scope st = Inl e"
proof (cases "combined_model snake_case node_shape number_mul classifier adversary lambda_reg
               lr_ratio scope st")
  case (Inl e)
  then show ?thesis by blast
next
  case (Inr r)
  obtain m st' where "r = (m, st')" by (cases r)
  with Inr combined_model_Inr [of snake_case node_shape number_mul classifier adversary
      lambda_reg lr_ratio scope st m st']
  have "\<exists>x y. lambda_reg = Some x \<and> lr_ratio = Some y" by blast
  with assms show ?thesis by auto
qed







text \<open>Neither is a model returned for a classifier without layers.\<close>

lemma combined_model_classifier_without_layers:
  "combined_model example_snake_case example_node_shape example_number_mul example_empty
     example_adversary (Some 10) (Some (1 / 2)) (Some ''combined'') example_built
     = Inl IndexError"
  by (rule combined_model_no_layers) (simp add: example_empty_def)



text \<open>
  Claim C9. Called with \<open>lambda_reg = None\<close> or \<open>lr_ratio = None\<close>, \<^verbatim>\<open>combined_model\<close> fails:
  with the \<^verbatim>\<open>TypeError\<close> of the product \<^verbatim>\<open>lambda_reg * lr_ratio\<close> once the input shape of
  the classifier's first layer has been read, as it always is from an input layer.
  Whenever a model is returned, both parameters are numbers.
\<close>

theorem combined_model_needs_numbers:
  assumes "lambda_reg = None \<or> lr_ratio = None"
  shows "(\<exists>e. combined_model snake_case node_shape number_mul classifier adversary lambda_reg
               lr_ratio scope st = Inl e) \<and>
         (\<forall>shape_clf n_clf i_clf rest.
            layers classifier = InputLayer shape_clf n_clf i_clf # rest \<longrightarrow>
            combined_model snake_case node_shape number_mul classifier adversary lambda_reg
              lr_ratio scope st = Inl TypeError) \<and>
         (\<forall>l0 rest s0.
            layers classifier = l0 # rest \<and> input_shape node_shape l0 = Inr s0 \<longrightarrow>
            combined_model snake_case node_shape number_mul classifier adversary lambda_reg
              lr_ratio scope st = Inl TypeError) \<and>
         (\<forall>classifier' adversary' lambda_reg' lr_ratio' scope' st0 m st'.
            combined_model snake_case node_shape number_mul classifier' adversary' lambda_reg'
              lr_ratio' scope' st0 = Inr (m, st') \<longrightarrow>
            (\<exists>x y. lambda_reg' = Some x \<and> lr_ratio' = Some y))"
proof (intro conjI allI impI)
  show "\<exists>e. combined_model snake_case node_shape number_mul classifier adversary lambda_reg
               lr_ratio scope st = Inl e"
    using assms by (rule combined_model_Inl_None)
next
  fix shape_clf n_clf i_clf rest
  assume c: "layers classifier = InputLayer shape_clf n_clf i_clf # rest"
  have "input_shape node_shape (InputLayer shape_clf n_clf i_clf) = Inr shape_clf" by simp
  from combined_model_TypeError [OF c this assms]
  show "combined_model snake_case node_shape number_mul classifier adversary lambda_reg
              lr_ratio scope st = Inl TypeError" .
next
  fix l0 rest s0
  assume "layers classifier = l0 # rest \<and> input_shape node_shape l0 = Inr s0"
  then have c: "layers classifier = l0 # rest" "input_shape node_shape l0 = Inr s0"
    by simp_all
  from combined_model_TypeError [OF c assms]
  show "combined_model snake_case node_shape number_mul classifier adversary lambda_reg
              lr_ratio scope st = Inl TypeError" .
next
  fix classifier' adversary' lambda_reg' lr_ratio' scope' st0 m st'
  assume "combined_model snake_case node_shape number_mul classifier' adversary' lambda_reg'
              lr_ratio' scope' st0 = Inr (m, st')"
  from combined_model_Inr [OF this]
  show "\<exists>x y. lambda_reg' = Some x \<and> lr_ratio' = Some y" by blast
qed

text \<open>The defaults, one at a time and together.\<close>

theorem combined_model_needs_numbers_example:
  "combined_model example_snake_case example_node_shape example_number_mul example_classifier
     example_adversary None (Some (1 / 2)) (Some ''combined'') example_built = Inl TypeError \<and>
   combined_model example_snake_case example_node_shape example_number_mul example_classifier
     example_adversary (Some 10) None (Some ''combined'') example_built = Inl TypeError \<and>
   combined_model example_snake_case example_node_shape example_number_mul example_classifier
     example_adversary None None (Some ''combined'') example_built = Inl TypeError"
proof -
  note c = example_classifier_layers
  have "combined_model example_snake_case example_node_shape example_number_mul
     example_classifier example_adversary None (Some (1 / 2))
     (Some ''combined'') example_built = Inl TypeError"
    using combined_model_needs_numbers [of None "Some (1 / 2)" example_snake_case
        example_node_shape example_number_mul
        example_classifier example_adversary "Some ''combined''" example_built] c
    by simp
  moreover
  have "combined_model example_snake_case example_node_shape example_number_mul
     example_classifier example_adversary (Some 10) None
     (Some ''combined'') example_built = Inl TypeError"
    using combined_model_needs_numbers [of "Some 10" None example_snake_case
        example_node_shape example_number_mul
        example_classifier example_adversary "Some ''combined''" example_built] c
    by simp
  moreover
  have "combined_model example_snake_case example_node_shape example_number_mul
     example_classifier example_adversary None None
     (Some ''combined'') example_built = Inl TypeError"
    using combined_model_needs_numbers [of None None example_snake_case
        example_node_shape example_number_mul
        example_classifier example_adversary "Some ''combined''" example_built] c
    by simp
  ultimately show ?thesis by simp
qed

subsection \<open>The decorrelation model\<close>

lemma set_trainable_fields:
  "trainable (set_trainable b m) = b"
  "inputs (set_trainable b m) = inputs m"
  "outputs (set_trainable b m) = outputs m"
  "model_name (set_trainable b m) = model_name m"
  "layers (set_trainable b m) = layers m"
  by (simp_all add: set_trainable_def)

lemma decorrelation_model_returns:
  assumes "layers (attributes classifier) = l0 # rest" and "input_shape node_shape l0 = Inr s0"
  shows "\<exists>m st' n_input n_weights n_classifier n_layer.
     decorrelation_model node_shape classifier num_decorrelation_features scope kwargs st =
       (classifier\<lparr>attributes := set_trainable True (attributes classifier),
                   inbound_nodes := inbound_nodes classifier @
                     [[Call (InputLayer (None # tl s0) n_classifier (Suc (Suc (objects st)))) []]],
                   outbound_nodes := outbound_nodes classifier @
                     [Call (DecorrelationLayer n_layer)
                        [Call (ModelLayer (set_trainable True (attributes classifier)))
                           [Call (InputLayer (None # tl s0) n_classifier
                                    (Suc (Suc (objects st)))) []],
                         Call (InputLayer [None, Some num_decorrelation_features] n_input
                                 (objects st)) [],
                         Call (InputLayer [None, Some 1] n_weights (Suc (objects st))) []]]\<rparr>,
        Inr (m, st')) \<and>
     inputs m =
       [Call (InputLayer (None # tl s0) n_classifier (Suc (Suc (objects st)))) [],
        Call (InputLayer [None, Some num_decorrelation_features] n_input (objects st)) [],
        Call (InputLayer [None, Some 1] n_weights (Suc (objects st))) []] \<and>
     outputs m =
       [Call (ModelLayer (set_trainable True (attributes classifier)))
          [Call (InputLayer (None # tl s0) n_classifier (Suc (Suc (objects st)))) []],
        Call (DecorrelationLayer n_layer)
          [Call (ModelLayer (set_trainable True (attributes classifier)))
             [Call (InputLayer (None # tl s0) n_classifier (Suc (Suc (objects st)))) []],
           Call (InputLayer [None, Some num_decorrelation_features] n_input (objects st)) [],
           Call (InputLayer [None, Some 1] n_weights (Suc (objects st))) []]]"
proof -
  obtain n1 st1 where
    i1: "Input [Some num_decorrelation_features] None st
           = (Call (InputLayer [None, Some num_decorrelation_features] n1 (objects st)) [], st1)" and
    o1: "objects st1 = Suc (objects st)"
    using Input_layer by blast
  obtain n2 st2 where
    i2: "Input [Some 1] None st1 = (Call (InputLayer [None, Some 1] n2 (Suc (objects st))) [], st2)" and
    o2: "objects st2 = Suc (Suc (objects st))"
    using Input_layer [of "[Some 1]" None st1] o1 by auto
  obtain n3 st3 where
    i3: "Input (tl s0) None st2
           = (Call (InputLayer (None # tl s0) n3 (Suc (Suc (objects st)))) [], st3)"
    using Input_layer [of "tl s0" None st2] o2 by auto
  obtain n4 st4 where a: "auto_name ''DecorrelationLayer'' ''decorrelation_layer'' st3 = (n4, st4)"
    by (cases "auto_name ''DecorrelationLayer'' ''decorrelation_layer'' st3")
  let ?i = "Call (InputLayer (None # tl s0) n3 (Suc (Suc (objects st)))) []"
  let ?c = "Call (ModelLayer (set_trainable True (attributes classifier))) [?i]"
  let ?d = "Call (InputLayer [None, Some num_decorrelation_features] n1 (objects st)) []"
  let ?w = "Call (InputLayer [None, Some 1] n2 (Suc (objects st))) []"
  obtain m st' where
    m: "new_Model [?i, ?d, ?w] [?c, Call (DecorrelationLayer n4) [?c, ?d, ?w]] scope st4 = (m, st')"
    by (cases "new_Model [?i, ?d, ?w] [?c, Call (DecorrelationLayer n4) [?c, ?d, ?w]] scope st4")
  have "decorrelation_model node_shape classifier num_decorrelation_features scope kwargs st =
       (classifier\<lparr>attributes := set_trainable True (attributes classifier),
                   inbound_nodes := inbound_nodes classifier @ [[?i]],
                   outbound_nodes := outbound_nodes classifier @
                     [Call (DecorrelationLayer n4) [?c, ?d, ?w]]\<rparr>,
        Inr (m, st'))"
    using assms i1 i2 i3 a m
    by (simp add: decorrelation_model_def Let_def item0_def set_trainable_fields call_model_def)
  with new_Model_eq [OF m] show ?thesis by blast
qed

lemma decorrelation_model_no_layers:
  assumes "layers (attributes classifier) = []"
  shows "decorrelation_model node_shape classifier num_decorrelation_features scope kwargs st =
           (classifier\<lparr>attributes := set_trainable True (attributes classifier)\<rparr>,
            Inl IndexError)"
  using assms
  by (simp add: decorrelation_model_def Let_def item0_def set_trainable_fields split_def)

lemma decorrelation_model_no_shape:
  assumes "layers (attributes classifier) = l0 # rest" and "input_shape node_shape l0 = Inl e"
  shows "decorrelation_model node_shape classifier num_decorrelation_features scope kwargs st =
           (classifier\<lparr>attributes := set_trainable True (attributes classifier)\<rparr>, Inl e)"
  using assms
  by (simp add: decorrelation_model_def Let_def item0_def set_trainable_fields split_def)


lemma format_23: "format_nat (Suc (Suc 0)) = ''2''" "format_nat (Suc (Suc (Suc 0))) = ''3''"
  by (simp_all add: format_nat.simps digit_def)

lemmas decorrelation_eval = decorrelation_model_def Let_def item0_def split_def Input_def
  auto_name_def get_uid_def example_built_def set_trainable_fields example_classifier_layers
  new_Model_fields format_small format_23 call_model_def example_classifier_object_def
  example_node_shape_def

lemma example_decorrelation_nodes:
  "inbound_nodes (fst (decorrelation_model example_node_shape example_classifier_object 2
                         (Some ''decorrelation'') Map.empty example_built)) =
     [inputs example_classifier, [Call (InputLayer [None, Some 3] ''input_3'' 6) []]]"
  by (simp add: decorrelation_eval)


lemma example_classifier_inputs:
  "inputs example_classifier = [Call (InputLayer [None, Some 3] ''classifier/input'' 0) []]"
  unfolding example_classifier_def by (simp add: example_classifier_eq)




text \<open>
  Claim C8, amended. After every call of \<^verbatim>\<open>decorrelation_model\<close>, also one that raises,
  the attribute \<open>trainable\<close> of the argument is \<open>True\<close>, whatever it was before, and the
  inputs, the outputs, the name and the layers of the argument are what they were. The
  argument is changed further when the function returns a model: it has called the
  classifier on the new input, the first input of that model, and the node of this call
  has been added to the inbound nodes of the argument; and it has applied the
  \<open>DecorrelationLayer\<close> to the classifier's output, which has added that call, the last
  output of the model, to the outbound nodes of the argument. A call that raises changes
  neither list.
\<close>

theorem decorrelation_model_sets_trainable:
  "trainable (attributes (fst (decorrelation_model node_shape classifier
                                 num_decorrelation_features scope kwargs st))) = True \<and>
   inputs (attributes (fst (decorrelation_model node_shape classifier
                              num_decorrelation_features scope kwargs st)))
     = inputs (attributes classifier) \<and>
   outputs (attributes (fst (decorrelation_model node_shape classifier
                               num_decorrelation_features scope kwargs st)))
     = outputs (attributes classifier) \<and>
   model_name (attributes (fst (decorrelation_model node_shape classifier
                                  num_decorrelation_features scope kwargs st)))
     = model_name (attributes classifier) \<and>
   layers (attributes (fst (decorrelation_model node_shape classifier
                              num_decorrelation_features scope kwargs st)))
     = layers (attributes classifier) \<and>
   inbound_nodes (fst (decorrelation_model node_shape classifier
                         num_decorrelation_features scope kwargs st))
     = inbound_nodes classifier @
       (case snd (decorrelation_model node_shape classifier
                    num_decorrelation_features scope kwargs st) of
          Inl e \<Rightarrow> []
        | Inr (m, st') \<Rightarrow> [[hd (inputs m)]]) \<and>
   outbound_nodes (fst (decorrelation_model node_shape classifier
                          num_decorrelation_features scope kwargs st))
     = outbound_nodes classifier @
       (case snd (decorrelation_model node_shape classifier
                    num_decorrelation_features scope kwargs st) of
          Inl e \<Rightarrow> []
        | Inr (m, st') \<Rightarrow> [last (outputs m)])"
proof (cases "layers (attributes classifier)")
  case Nil
  from decorrelation_model_no_layers [OF Nil] show ?thesis
    by (simp add: set_trainable_fields)
next
  case (Cons l0 rest)
  show ?thesis
  proof (cases "input_shape node_shape l0")
    case (Inl e)
    from decorrelation_model_no_shape [OF Cons Inl] show ?thesis
      by (simp add: set_trainable_fields)
  next
    case (Inr s0)
    from decorrelation_model_returns [OF Cons Inr, of num_decorrelation_features scope kwargs st]
    show ?thesis
      by (auto simp: set_trainable_fields)
  qed
qed

text \<open>As the claim is written it fails: the example classifier is trainable before the
  call, and the call leaves it with a second inbound node.\<close>

theorem decorrelation_model_adds_inbound_node:
  "trainable (attributes example_classifier_object) = True \<and>
   inbound_nodes example_classifier_object
     = [[Call (InputLayer [None, Some 3] ''classifier/input'' 0) []]] \<and>
   inbound_nodes (fst (decorrelation_model example_node_shape example_classifier_object 2
                         (Some ''decorrelation'') Map.empty example_built))
     = [[Call (InputLayer [None, Some 3] ''classifier/input'' 0) []],
        [Call (InputLayer [None, Some 3] ''input_3'' 6) []]]"
  using example_decorrelation_nodes
  by (simp add: example_classifier_object_def example_classifier_inputs
        example_classifier_def example_classifier_eq)

text \<open>A classifier that was not trainable, and a call that raises, on a model without
  layers.\<close>

theorem decorrelation_model_sets_trainable_example:
  "trainable (attributes (fst (decorrelation_model example_node_shape
       \<lparr>attributes = set_trainable False example_classifier,
        inbound_nodes = [inputs example_classifier], outbound_nodes = []\<rparr>
       2 (Some ''decorrelation'') Map.empty example_built))) = True \<and>
   trainable (attributes (fst (decorrelation_model example_node_shape
       \<lparr>attributes = set_trainable False example_empty, inbound_nodes = [], outbound_nodes = []\<rparr>
       2 (Some ''decorrelation'') Map.empty example_built))) = True \<and>
   inbound_nodes (fst (decorrelation_model example_node_shape
       \<lparr>attributes = set_trainable False example_empty, inbound_nodes = [], outbound_nodes = []\<rparr>
       2 (Some ''decorrelation'') Map.empty example_built)) = []"
proof -
  have e: "layers (attributes \<lparr>attributes = set_trainable False example_empty,
                               inbound_nodes = [], outbound_nodes = []\<rparr>) = []"
    by (simp add: set_trainable_fields example_empty_def)
  from decorrelation_model_sets_trainable [of example_node_shape
      "\<lparr>attributes = set_trainable False example_classifier,
        inbound_nodes = [inputs example_classifier], outbound_nodes = []\<rparr>"
      2 "Some ''decorrelation''" Map.empty example_built]
    decorrelation_model_sets_trainable [of example_node_shape
      "\<lparr>attributes = set_trainable False example_empty, inbound_nodes = [], outbound_nodes = []\<rparr>"
      2 "Some ''decorrelation''" Map.empty example_built]
    decorrelation_model_no_layers [OF e, of example_node_shape 2 "Some ''decorrelation''"
      Map.empty example_built]
  show ?thesis by simp
qed

end
